theory Spec2Isabelle
  imports Complex_Main
begin

section \<open>Strings\<close>

text \<open>
  Item names are Python \<open>str\<close> values. They are modelled as HOL strings holding ASCII
  text: \<open>lower\<close> is \<open>str.lower\<close> on ASCII letters (and SQLite's \<open>LOWER\<close>, which folds
  ASCII letters only), \<open>isspace\<close> holds for the ASCII characters that \<open>str.strip\<close>
  removes (tab, line feed, vertical tab, form feed, carriage return, the four
  separators 0x1C to 0x1F and the space).
\<close>

definition lower_char :: "char \<Rightarrow> char" where
  "lower_char c =
     (case map_of (zip ''ABCDEFGHIJKLMNOPQRSTUVWXYZ'' ''abcdefghijklmnopqrstuvwxyz'') c of
        Some l \<Rightarrow> l
      | None \<Rightarrow> c)"

definition lower :: "string \<Rightarrow> string" where
  "lower s = map lower_char s"

definition isspace :: "char \<Rightarrow> bool" where
  "isspace c = (c \<in> set [CHR 0x09, CHR 0x0A, CHR 0x0B, CHR 0x0C, CHR 0x0D,
                          CHR 0x1C, CHR 0x1D, CHR 0x1E, CHR 0x1F, CHR '' ''])"

definition strip :: "string \<Rightarrow> string" where
  "strip s = rev (dropWhile isspace (rev (dropWhile isspace s)))"

text \<open>\<open>s.replace(c, "")\<close> for a one-character \<open>c\<close>.\<close>

definition remove_char :: "char \<Rightarrow> string \<Rightarrow> string" where
  "remove_char c s = filter (\<lambda>x. x \<noteq> c) s"

text \<open>\<open>s.endswith("s")\<close>.\<close>

definition endswith_s :: "string \<Rightarrow> bool" where
  "endswith_s s = (s \<noteq> [] \<and> last s = CHR ''s'')"

text \<open>\<open>sep.join(xs)\<close>.\<close>

fun join :: "string \<Rightarrow> string list \<Rightarrow> string" where
  "join sep [] = []"
| "join sep [x] = x"
| "join sep (x # y # ys) = x @ sep @ join sep (y # ys)"

text \<open>\<open>str(n)\<close> for an integer, as an f-string prints it.\<close>

definition digit_char :: "nat \<Rightarrow> char" where
  "digit_char d = ''0123456789'' ! (d mod 10)"

function str_nat :: "nat \<Rightarrow> string" where
  "str_nat n = (if n < 10 then [digit_char n] else str_nat (n div 10) @ [digit_char (n mod 10)])"
  by pat_completeness auto
termination
  by (relation "measure id") auto

definition str_int :: "int \<Rightarrow> string" where
  "str_int i = (if i < 0 then CHR ''-'' # str_nat (nat (- i)) else str_nat (nat i))"

section \<open>Item name normalisation (tools/database.py)\<close>

definition db_item_names :: "string list" where
  "db_item_names = [''tshirt'', ''jeans'', ''shoes'', ''hat'', ''jacket'']"

definition name_mappings :: "(string \<times> string) list" where
  "name_mappings =
     [(''tshirts'', ''tshirt''),
      (''t-shirts'', ''tshirt''),
      (''t_shirts'', ''tshirt''),
      (''tshirt'', ''tshirt''),
      (''shoe'', ''shoes''),
      (''shoes'', ''shoes''),
      (''hats'', ''hat''),
      (''hat'', ''hat''),
      (''jackets'', ''jacket''),
      (''jacket'', ''jacket''),
      (''jeans'', ''jeans''),
      (''jean'', ''jeans'')]"

text \<open>
  The first two steps of \<open>normalize_item_name\<close>: lower-case and strip, then remove
  hyphens and spaces.
\<close>

definition clean_name :: "string \<Rightarrow> string" where
  "clean_name item_name = remove_char CHR '' '' (remove_char CHR ''-'' (strip (lower item_name)))"

definition normalize_item_name :: "string \<Rightarrow> string" where
  "normalize_item_name item_name =
     (if item_name = [] then []
      else
        let normalized = clean_name item_name in
        case map_of name_mappings normalized of
          Some canonical \<Rightarrow> canonical
        | None \<Rightarrow>
            if normalized \<in> set db_item_names then normalized
            else if endswith_s normalized then
              (let singular = butlast normalized in
               if singular \<in> set db_item_names then singular
               else case map_of name_mappings singular of
                      Some canonical \<Rightarrow> canonical
                    | None \<Rightarrow> normalized)
            else normalized)"

text \<open>
  A cleaned name that \<open>normalize_item_name\<close> cannot resolve: it is no key of the alias
  table and no database name, and neither is what remains of it without a trailing
  \<open>s\<close>.
\<close>

definition unresolvable :: "string \<Rightarrow> bool" where
  "unresolvable item_name =
     (let normalized = clean_name item_name in
      map_of name_mappings normalized = None \<and>
      normalized \<notin> set db_item_names \<and>
      \<not> (endswith_s normalized \<and>
         (butlast normalized \<in> set db_item_names \<or>
          map_of name_mappings (butlast normalized) \<noteq> None)))"

section \<open>The inventory table (tools/database.py)\<close>

text \<open>
  The SQLite table \<open>inventory (item_name TEXT PRIMARY KEY, quantity INTEGER NOT NULL,
  price REAL)\<close> is the list of its rows in scan order. A price is \<open>None\<close> for SQL
  \<open>NULL\<close>; the price literals of the source are kept as the decimal fractions they
  denote (prices are stored and compared with zero, never computed with here).
  Quantities are Python integers. The database is \<open>None\<close> while the table does not
  exist.
\<close>

record inventory_row =
  row_item_name :: string
  row_quantity :: int
  row_price :: "rat option"

type_synonym inventory = "inventory_row list"
type_synonym database = "inventory option"

definition sample_items :: inventory where
  "sample_items =
     [\<lparr>row_item_name = ''tshirt'', row_quantity = 10, row_price = Some (1999 / 100)\<rparr>,
      \<lparr>row_item_name = ''jeans'', row_quantity = 5, row_price = Some (4999 / 100)\<rparr>,
      \<lparr>row_item_name = ''shoes'', row_quantity = 8, row_price = Some (7999 / 100)\<rparr>,
      \<lparr>row_item_name = ''hat'', row_quantity = 15, row_price = Some (1499 / 100)\<rparr>,
      \<lparr>row_item_name = ''jacket'', row_quantity = 3, row_price = Some (9999 / 100)\<rparr>]"

definition default_prices :: "(string \<times> rat) list" where
  "default_prices =
     [(''tshirt'', 1999 / 100),
      (''jeans'', 4999 / 100),
      (''shoes'', 7999 / 100),
      (''hat'', 1499 / 100),
      (''jacket'', 9999 / 100)]"

text \<open>
  \<open>UPDATE inventory SET price = ? WHERE item_name = ? AND (price IS NULL OR price = 0)\<close>
\<close>

definition update_missing_price :: "inventory \<Rightarrow> string \<times> rat \<Rightarrow> inventory" where
  "update_missing_price t d =
     map (\<lambda>r. if row_item_name r = fst d \<and> (row_price r = None \<or> row_price r = Some 0)
               then r\<lparr>row_price := Some (snd d)\<rparr> else r) t"

text \<open>
  \<open>init_database\<close> creates the table when it is absent (\<open>CREATE TABLE IF NOT EXISTS\<close>),
  seeds an empty table and otherwise backfills the default prices. Its result is the
  table the database holds afterwards. The \<open>ALTER TABLE ... ADD COLUMN price\<close> step
  changes nothing on a table that has the column, which every modelled table has.
\<close>

definition init_database :: "database \<Rightarrow> database" where
  "init_database db =
     (let t = (case db of None \<Rightarrow> [] | Some rows \<Rightarrow> rows) in
      if length t = 0 then Some sample_items
      else Some (foldl update_missing_price t default_prices))"

text \<open>
  \<open>get_connection\<close> initialises the database when the table does not exist (an
  existing empty table is left alone). It yields the table every later statement of
  the caller works on.
\<close>

definition get_connection :: "database \<Rightarrow> inventory" where
  "get_connection db =
     (case db of
        None \<Rightarrow> (case init_database None of Some t \<Rightarrow> t | None \<Rightarrow> [])
      | Some t \<Rightarrow> t)"

text \<open>\<open>SELECT ... FROM inventory WHERE item_name = ?\<close> followed by \<open>fetchone()\<close>.\<close>

definition select_item :: "inventory \<Rightarrow> string \<Rightarrow> inventory_row option" where
  "select_item t item_name = find (\<lambda>r. row_item_name r = item_name) t"

text \<open>\<open>SELECT ... WHERE LOWER(item_name) = LOWER(?)\<close> followed by \<open>fetchone()\<close>.\<close>

definition select_item_lower :: "inventory \<Rightarrow> string \<Rightarrow> inventory_row option" where
  "select_item_lower t item_name = find (\<lambda>r. lower (row_item_name r) = lower item_name) t"

text \<open>\<open>UPDATE inventory SET quantity = ? WHERE item_name = ?\<close>\<close>

definition update_quantity :: "inventory \<Rightarrow> string \<Rightarrow> int \<Rightarrow> inventory" where
  "update_quantity t item_name new_qty =
     map (\<lambda>r. if row_item_name r = item_name then r\<lparr>row_quantity := new_qty\<rparr> else r) t"

definition check_stock :: "database \<Rightarrow> string \<Rightarrow> int \<times> database" where
  "check_stock db item_name =
     (let t = get_connection db;
          normalized_name = normalize_item_name item_name;
          result = select_item t item_name;
          result = (if result = None \<and> normalized_name \<noteq> item_name
                    then select_item t normalized_name else result);
          result = (if result = None then select_item_lower t item_name else result)
      in (case result of Some r \<Rightarrow> row_quantity r | None \<Rightarrow> 0, Some t))"

definition subtract_inventory :: "database \<Rightarrow> string \<Rightarrow> int \<Rightarrow> bool \<times> database" where
  "subtract_inventory db item_name quantity =
     (let t = get_connection db in
      case select_item t item_name of
        None \<Rightarrow> (False, Some t)
      | Some result \<Rightarrow>
          (let current_qty = row_quantity result in
           if current_qty < quantity then (False, Some t)
           else (True, Some (update_quantity t item_name (current_qty - quantity)))))"

definition restock_item :: "database \<Rightarrow> string \<Rightarrow> int \<Rightarrow> bool \<times> database" where
  "restock_item db item_name quantity =
     (let t = get_connection db in
      case select_item t item_name of
        None \<Rightarrow> (False, Some t)
      | Some result \<Rightarrow>
          (True, Some (update_quantity t item_name (row_quantity result + quantity))))"

text \<open>
  The quantity on hand of an item, looked up by its exact name: the quantity of its
  row, and zero when the table has no such row.
\<close>

definition quantity_on_hand :: "inventory \<Rightarrow> string \<Rightarrow> int" where
  "quantity_on_hand t item_name =
     (case select_item t item_name of Some r \<Rightarrow> row_quantity r | None \<Rightarrow> 0)"

section \<open>Sequences of store operations\<close>

text \<open>
  A caller's view of the store: a sequence of \<open>subtract_inventory\<close> (reserve) and
  \<open>restock_item\<close> (restock) calls, run one after the other on the same database,
  with the result each call returned.
\<close>

datatype store_op = Reserve string int | Restock string int

fun apply_op :: "database \<Rightarrow> store_op \<Rightarrow> bool \<times> database" where
  "apply_op db (Reserve item_name quantity) = subtract_inventory db item_name quantity"
| "apply_op db (Restock item_name quantity) = restock_item db item_name quantity"

fun run_ops :: "database \<Rightarrow> store_op list \<Rightarrow> bool list \<times> database" where
  "run_ops db [] = ([], db)"
| "run_ops db (x # xs) =
     (let (ok, db') = apply_op db x;
          (oks, db'') = run_ops db' xs
      in (ok # oks, db''))"

text \<open>
  What a call contributed to the reservations and to the restocks of item \<open>n\<close>: its
  quantity when it succeeded on that item, and nothing otherwise.
\<close>

fun reserved :: "string \<Rightarrow> store_op \<times> bool \<Rightarrow> int" where
  "reserved n (Reserve item_name quantity, ok) = (if ok \<and> item_name = n then quantity else 0)"
| "reserved n (Restock item_name quantity, ok) = 0"

fun restocked :: "string \<Rightarrow> store_op \<times> bool \<Rightarrow> int" where
  "restocked n (Restock item_name quantity, ok) = (if ok \<and> item_name = n then quantity else 0)"
| "restocked n (Reserve item_name quantity, ok) = 0"

fun restock_quantity_nonneg :: "store_op \<Rightarrow> bool" where
  "restock_quantity_nonneg (Restock item_name quantity) = (0 \<le> quantity)"
| "restock_quantity_nonneg (Reserve item_name quantity) = True"

fun is_reserve :: "store_op \<Rightarrow> bool" where
  "is_reserve (Reserve item_name quantity) = True"
| "is_reserve (Restock item_name quantity) = False"

definition quantities_nonneg :: "inventory \<Rightarrow> bool" where
  "quantities_nonneg t = list_all (\<lambda>r. 0 \<le> row_quantity r) t"

section \<open>The workflow graph (agent_graph.py)\<close>

text \<open>
  An order line \<open>{"item_name": ..., "quantity": ...}\<close>, a LangChain message, and the
  \<open>AgentState\<close> dictionary. A key marked \<open>NotRequired\<close> is an optional field: \<open>None\<close>
  when the key is absent. \<open>state.get(key, default)\<close> reads such a field with the
  default for \<open>None\<close>.
\<close>

record item =
  item_name :: string
  quantity :: int

datatype message = HumanMessage string | AIMessage string

record stock_check_entry =
  available_qty :: int
  requested_qty :: int
  is_available :: bool

record agent_state =
  messages :: "message list"
  user_request :: "string option"
  parsed_items :: "item list option"
  stock_check_results :: "(string \<times> stock_check_entry) list option"
  stock_availability :: "bool option"
  inventory_subtracted :: "bool option"
  updated_stock_quantities :: "(string \<times> int) list option"
  payment_requested :: "bool option"
  payment_status :: "string option"
  status :: "string option"
  restocked_items :: "string list option"
  error_message :: "string option"

text \<open>\<open>state.get("parsed_items", [])\<close>\<close>

definition get_parsed_items :: "'a agent_state_scheme \<Rightarrow> item list" where
  "get_parsed_items state = (case parsed_items state of Some xs \<Rightarrow> xs | None \<Rightarrow> [])"

text \<open>
  \<open>d[k] = v\<close> on a Python dictionary, kept as the list of its entries in insertion
  order: an existing key keeps its place, a new key goes last.
\<close>

fun dict_set :: "('k \<times> 'v) list \<Rightarrow> 'k \<Rightarrow> 'v \<Rightarrow> ('k \<times> 'v) list" where
  "dict_set [] k v = [(k, v)]"
| "dict_set ((k', v') # d) k v = (if k' = k then (k, v) # d else (k', v') # dict_set d k v)"

text \<open>\<open>f"{item['quantity']}x {item['item_name']}"\<close>\<close>

definition item_str :: "item \<Rightarrow> string" where
  "item_str it = str_int (quantity it) @ ''x '' @ item_name it"

text \<open>The check mark U+2705 that opens the completion message, in UTF-8.\<close>

definition check_mark :: string where
  "check_mark = [CHR 0xE2, CHR 0x9C, CHR 0x85]"

text \<open>The loop of \<open>stock_management_node\<close> over the parsed items.\<close>

fun stock_check_loop ::
  "database \<Rightarrow> item list \<Rightarrow> (string \<times> stock_check_entry) list \<Rightarrow> bool \<Rightarrow>
     (string \<times> stock_check_entry) list \<times> bool \<times> database" where
  "stock_check_loop db [] results all_available = (results, all_available, db)"
| "stock_check_loop db (it # items) results all_available =
     (let (available, db') = check_stock db (item_name it);
          available_now = (available \<ge> quantity it);
          results' = dict_set results (item_name it)
            \<lparr>available_qty = available, requested_qty = quantity it,
             is_available = available_now\<rparr>
      in stock_check_loop db' items results' (if \<not> available_now then False else all_available))"

definition stock_management_node ::
  "agent_state \<Rightarrow> database \<Rightarrow> agent_state \<times> database" where
  "stock_management_node state db =
     (if get_parsed_items state = [] then
        (state\<lparr>status := Some ''rejected'',
               error_message := Some ''No items to check stock for'',
               stock_availability := Some False\<rparr>, db)
      else
        let (results, all_available, db') = stock_check_loop db (get_parsed_items state) [] True;
            new_state = state\<lparr>stock_check_results := Some results,
                              stock_availability := Some all_available\<rparr>
        in if all_available then (new_state\<lparr>status := Some ''checking_stock''\<rparr>, db')
           else
             let unavailable_items = map fst (filter (\<lambda>(n, d). \<not> is_available d) results);
                 rejection_msg = AIMessage (''Sorry, we don't have enough stock for: '' @
                   join '', '' unavailable_items @ ''. Payment rejected.'')
             in (new_state\<lparr>status := Some ''rejected'',
                            messages := messages state @ [rejection_msg]\<rparr>, db'))"

text \<open>
  The loop of \<open>warehouse_node\<close>: it stops at the first item whose \<open>subtract_inventory\<close>
  call fails and yields that item's name (\<open>Inl\<close>), or runs through and yields the
  updated quantities (\<open>Inr\<close>).
\<close>

fun warehouse_loop ::
  "database \<Rightarrow> item list \<Rightarrow> (string \<times> int) list \<Rightarrow>
     (string + (string \<times> int) list) \<times> database" where
  "warehouse_loop db [] updated = (Inr updated, db)"
| "warehouse_loop db (it # items) updated =
     (let (success, db') = subtract_inventory db (item_name it) (quantity it) in
      if success then
        (let (updated_qty, db'') = check_stock db' (item_name it) in
         warehouse_loop db'' items (dict_set updated (item_name it) updated_qty))
      else (Inl (item_name it), db'))"

definition warehouse_node :: "agent_state \<Rightarrow> database \<Rightarrow> agent_state \<times> database" where
  "warehouse_node state db =
     (if get_parsed_items state = [] then
        (state\<lparr>status := Some ''subtracting_inventory'',
               error_message := Some ''No items to subtract''\<rparr>, db)
      else
        case warehouse_loop db (get_parsed_items state) [] of
          (Inl failed_name, db') \<Rightarrow>
            (state\<lparr>status := Some ''subtracting_inventory'',
                   error_message := Some (''Failed to subtract inventory for '' @ failed_name)\<rparr>,
             db')
        | (Inr updated, db') \<Rightarrow>
            (state\<lparr>inventory_subtracted := Some True,
                   updated_stock_quantities := Some updated,
                   status := Some ''subtracting_inventory'',
                   messages := messages state @
                     [AIMessage (''Inventory updated. Items reserved: '' @
                        join '', '' (map item_str (get_parsed_items state)))]\<rparr>,
             db'))"

definition cashier_node :: "agent_state \<Rightarrow> agent_state" where
  "cashier_node state =
     state\<lparr>payment_status := Some ''successful'',
           status := Some ''completed'',
           messages := messages state @
             [AIMessage (check_mark @ '' Order completed successfully! Your purchase of '' @
                join '', '' (map item_str (get_parsed_items state)) @
                '' has been processed. Thank you for your order!'')]\<rparr>"

text \<open>The loop of \<open>restocker_node\<close>: every item is restocked, failures are skipped.\<close>

fun restock_loop :: "database \<Rightarrow> item list \<Rightarrow> string list \<Rightarrow> string list \<times> database" where
  "restock_loop db [] restocked_names = (restocked_names, db)"
| "restock_loop db (it # items) restocked_names =
     (let (success, db') = restock_item db (item_name it) (quantity it) in
      restock_loop db' items (if success then restocked_names @ [item_name it] else restocked_names))"

definition restocker_node :: "agent_state \<Rightarrow> database \<Rightarrow> agent_state \<times> database" where
  "restocker_node state db =
     (if get_parsed_items state = [] then
        (state\<lparr>status := Some ''restocking'',
               error_message := Some ''No items to restock''\<rparr>, db)
      else
        let (restocked_names, db') = restock_loop db (get_parsed_items state) [];
            new_state = state\<lparr>restocked_items := Some restocked_names,
                              status := Some ''completed''\<rparr>
        in if restocked_names \<noteq> [] then
             (new_state\<lparr>messages := messages state @
                [AIMessage (''Items restocked: '' @ join '', '' restocked_names @
                   ''. Inventory restored.'')]\<rparr>, db')
           else (new_state, db'))"

text \<open>LangGraph's \<open>END\<close> and the two router functions.\<close>

definition END :: string where
  "END = ''__end__''"

definition route_after_stock_check :: "agent_state \<Rightarrow> string" where
  "route_after_stock_check state =
     (if (case stock_availability state of Some b \<Rightarrow> b | None \<Rightarrow> False)
      then ''warehouse'' else END)"

definition route_after_payment :: "agent_state \<Rightarrow> string" where
  "route_after_payment state =
     (let payment = (case payment_status state of Some p \<Rightarrow> p | None \<Rightarrow> ''none'') in
      if payment = ''failed'' then ''restocker''
      else if payment = ''successful'' then END
      else END)"

text \<open>
  The compiled graph: its four nodes, the function each one runs, and its edges. The
  entry point is \<open>stock_management\<close>. A conditional edge looks the router's answer up
  in its path map; \<open>None\<close> stands for \<open>END\<close>.
\<close>

datatype node = stock_management | warehouse | cashier | restocker

fun run_node :: "node \<Rightarrow> agent_state \<Rightarrow> database \<Rightarrow> agent_state \<times> database" where
  "run_node stock_management state db = stock_management_node state db"
| "run_node warehouse state db = warehouse_node state db"
| "run_node cashier state db = (cashier_node state, db)"
| "run_node restocker state db = restocker_node state db"

definition path_map :: "(string \<times> node option) list \<Rightarrow> string \<Rightarrow> node option" where
  "path_map m answer = (case map_of m answer of Some target \<Rightarrow> target | None \<Rightarrow> None)"

fun next_node :: "node \<Rightarrow> agent_state \<Rightarrow> node option" where
  "next_node stock_management state =
     path_map [(''warehouse'', Some warehouse), (END, None)] (route_after_stock_check state)"
| "next_node warehouse state = Some cashier"
| "next_node cashier state =
     path_map [(''restocker'', Some restocker), (END, None)] (route_after_payment state)"
| "next_node restocker state = None"

text \<open>
  The position of a node in the graph: every edge leads to a node of lower rank, so
  a run visits at most four nodes.
\<close>

fun node_rank :: "node \<Rightarrow> nat" where
  "node_rank stock_management = 3"
| "node_rank warehouse = 2"
| "node_rank cashier = 1"
| "node_rank restocker = 0"

lemma next_node_rank: "next_node n state = Some m \<Longrightarrow> node_rank m < node_rank n"
  by (cases n) (auto simp: path_map_def END_def split: if_splits)

text \<open>
  \<open>app.stream(initial_state, config)\<close>: the events \<open>{node: output}\<close> in the order the
  nodes ran, and the database afterwards.
\<close>

function run_from ::
  "node \<Rightarrow> agent_state \<Rightarrow> database \<Rightarrow> (node \<times> agent_state) list \<times> database" where
  "run_from n state db =
     (let (state', db') = run_node n state db in
      case next_node n state' of
        None \<Rightarrow> ([(n, state')], db')
      | Some m \<Rightarrow> (let (events, db'') = run_from m state' db' in ((n, state') # events, db'')))"
  by pat_completeness auto
termination
  by (relation "measure (\<lambda>(n, state, db). node_rank n)") (auto dest: next_node_rank)

definition stream :: "agent_state \<Rightarrow> database \<Rightarrow> (node \<times> agent_state) list \<times> database" where
  "stream initial_state db = run_from stock_management initial_state db"


text \<open>
  The state \<open>run_agent_turn\<close> starts a first turn from, and the state the test block
  of agent_graph.py hands to \<open>restocker_node\<close> directly.
\<close>

definition first_turn_state :: "item list \<Rightarrow> agent_state" where
  "first_turn_state items =
     \<lparr>messages = [], user_request = None, parsed_items = Some items,
      stock_check_results = None, stock_availability = None, inventory_subtracted = None,
      updated_stock_quantities = None, payment_requested = None, payment_status = None,
      status = Some ''checking_stock'', restocked_items = None, error_message = None\<rparr>"

definition test_state_for_restocker :: "item list \<Rightarrow> agent_state" where
  "test_state_for_restocker items =
     \<lparr>messages = [], user_request = None, parsed_items = Some items,
      stock_check_results = None, stock_availability = None, inventory_subtracted = Some True,
      updated_stock_quantities = None, payment_requested = Some True,
      payment_status = Some ''failed'', status = Some ''payment_failed'',
      restocked_items = None, error_message = None\<rparr>"

section \<open>One turn of the workflow (agent_graph.py, run_agent_turn)\<close>

text \<open>
  A history entry \<open>{"role": ..., "content": ...}\<close>. The session state is a dictionary
  with the keys of \<open>AgentState\<close> other than \<open>messages\<close> (which stays empty in it) and
  the key \<open>payment_confirmed\<close>; the keys \<open>order_id\<close>, \<open>item\<close>, \<open>total_price\<close> and
  \<open>order_dispatched\<close> that the chat handler also puts there are read by no function
  below and are left out. The in-memory LangGraph checkpoint holds no key that
  \<open>run_agent_turn\<close> does not pass in again from the session state, and is left out.
\<close>

record history_entry =
  role :: string
  content :: string

record session_state = agent_state +
  payment_confirmed :: "bool option"

text \<open>The LangChain messages \<open>run_agent_turn\<close> builds from the history.\<close>

fun history_messages :: "history_entry list \<Rightarrow> message list" where
  "history_messages [] = []"
| "history_messages (h # hs) =
     (if role h = ''user'' then HumanMessage (content h) # history_messages hs
      else if role h = ''assistant'' then
        (if content h \<noteq> [] then AIMessage (content h) # history_messages hs
         else history_messages hs)
      else history_messages hs)"

text \<open>The content of the last \<open>AIMessage\<close>, or the empty string.\<close>

fun last_assistant_content :: "message list \<Rightarrow> string" where
  "last_assistant_content [] = []"
| "last_assistant_content (AIMessage c # ms) = c"
| "last_assistant_content (HumanMessage c # ms) = last_assistant_content ms"

text \<open>
  The state the graph starts from: the messages of the history, the order lines, the
  status \<open>"checking_stock"\<close>, and the other keys as the session state has them.
\<close>

definition initial_state :: "item list \<Rightarrow> session_state \<Rightarrow> history_entry list \<Rightarrow> agent_state" where
  "initial_state items session history =
     \<lparr>messages = history_messages history,
      user_request = user_request session,
      parsed_items = Some items,
      stock_check_results = stock_check_results session,
      stock_availability = stock_availability session,
      inventory_subtracted = inventory_subtracted session,
      updated_stock_quantities = updated_stock_quantities session,
      payment_requested = payment_requested session,
      payment_status = payment_status session,
      status = Some ''checking_stock'',
      restocked_items = restocked_items session,
      error_message = error_message session\<rparr>"

text \<open>
  \<open>run_agent_turn\<close> yields the reply, the new state (the final state's keys other than
  \<open>messages\<close>) and the extended history, together with the database afterwards.
\<close>

definition run_agent_turn ::
  "item list \<Rightarrow> session_state \<Rightarrow> history_entry list \<Rightarrow> database \<Rightarrow>
     (string \<times> agent_state \<times> history_entry list) \<times> database" where
  "run_agent_turn items session history db =
     (let (events, db') = stream (initial_state items session history) db in
      case events of
        [] \<Rightarrow> ((''Processing your order...'', agent_state.truncate session, history), db')
      | e # es \<Rightarrow>
          (let state = snd (last events);
               assistant_content = last_assistant_content (rev (messages state));
               new_state = state\<lparr>messages := []\<rparr>;
               user_content = ''Purchase request: '' @ join '', '' (map item_str items);
               updated_history = history @
                 [\<lparr>role = ''user'', content = user_content\<rparr>,
                  \<lparr>role = ''assistant'', content = assistant_content\<rparr>]
           in ((assistant_content, new_state, updated_history), db')))"

section \<open>The agent's storage and messages (protocols)\<close>

text \<open>
  What \<open>ctx.storage\<close> holds under a key: a flag, or the session data dictionary with
  its optional keys \<open>state\<close>, \<open>history\<close> and \<open>parsed_items\<close>. The context of a handler
  is the storage, the inventory database and the messages sent so far, each with its
  destination. Storage and database operations are taken not to fail.
\<close>

record session_data =
  sd_state :: "session_state option"
  sd_history :: "history_entry list option"
  sd_parsed_items :: "item list option"

datatype storage_value = Flag bool | SessionData session_data

text \<open>
  The payloads the handlers send. Of a \<open>RequestPayment\<close> only the order lines of its
  metadata are kept; its amount, recipient, random reference and its description
  (prices printed in floating point) are left out.
\<close>

datatype payload =
    ChatAcknowledgement string
  | ChatMessage string
  | RequestPayment "item list"
  | CompletePayment string
  | RejectPayment string

record agent_context =
  storage :: "string \<rightharpoonup> storage_value"
  inventory_db :: database
  sent :: "(string \<times> payload) list"

definition send :: "string \<Rightarrow> payload \<Rightarrow> agent_context \<Rightarrow> agent_context" where
  "send destination p ctx = ctx\<lparr>sent := sent ctx @ [(destination, p)]\<rparr>"

definition storage_set :: "string \<Rightarrow> storage_value \<Rightarrow> agent_context \<Rightarrow> agent_context" where
  "storage_set key v ctx = ctx\<lparr>storage := (storage ctx)(key \<mapsto> v)\<rparr>"

text \<open>\<open>_k(prefix, sender, session)\<close> and the session key \<open>f"{sender}::{session}"\<close>.\<close>

definition storage_key :: "string \<Rightarrow> string \<Rightarrow> string \<Rightarrow> string" where
  "storage_key prefix sender session = prefix @ '':'' @ sender @ '':'' @ session"

definition session_key :: "string \<Rightarrow> string \<Rightarrow> string" where
  "session_key sender session = sender @ ''::'' @ session"

section \<open>Settlement (protocols/payment_proto.py, on_commit)\<close>

text \<open>
  A \<open>CommitPayment\<close>. \<open>metadata_parsed_items\<close> is what \<open>json.loads\<close> makes of the
  metadata entry \<open>parsed_items\<close>: \<open>None\<close> when there is no metadata, no such entry, or
  the entry does not decode.
\<close>

record commit_payment =
  transaction_id :: string
  funds_currency :: string
  funds_amount :: string
  funds_payment_method :: string
  metadata_parsed_items :: "item list option"

text \<open>"Update session state to mark payment confirmed".\<close>

definition confirm_session_payment :: "string \<Rightarrow> string \<Rightarrow> agent_context \<Rightarrow> agent_context" where
  "confirm_session_payment session sender ctx =
     (case storage ctx (session_key sender session) of
        Some (SessionData sd) \<Rightarrow>
          (case sd_state sd of
             Some st \<Rightarrow>
               storage_set (session_key sender session)
                 (SessionData (sd\<lparr>sd_state := Some (st\<lparr>payment_confirmed := Some True\<rparr>)\<rparr>)) ctx
           | None \<Rightarrow> ctx)
      | _ \<Rightarrow> ctx)"

text \<open>\<open>state.update(new_state)\<close> for one key: a key of \<open>new_state\<close> overwrites.\<close>

definition updated_key :: "'a option \<Rightarrow> 'a option \<Rightarrow> 'a option" where
  "updated_key new old = (case new of Some v \<Rightarrow> Some v | None \<Rightarrow> old)"

definition state_update :: "session_state \<Rightarrow> agent_state \<Rightarrow> session_state" where
  "state_update st new_state =
     st\<lparr>user_request := updated_key (user_request new_state) (user_request st),
        parsed_items := updated_key (parsed_items new_state) (parsed_items st),
        stock_check_results := updated_key (stock_check_results new_state) (stock_check_results st),
        stock_availability := updated_key (stock_availability new_state) (stock_availability st),
        inventory_subtracted := updated_key (inventory_subtracted new_state) (inventory_subtracted st),
        updated_stock_quantities :=
          updated_key (updated_stock_quantities new_state) (updated_stock_quantities st),
        payment_requested := updated_key (payment_requested new_state) (payment_requested st),
        payment_status := updated_key (payment_status new_state) (payment_status st),
        status := updated_key (status new_state) (status st),
        restocked_items := updated_key (restocked_items new_state) (restocked_items st),
        error_message := updated_key (error_message new_state) (error_message st)\<rparr>"

text \<open>The empty dictionary \<open>{}\<close> as a session state.\<close>

definition empty_session_state :: session_state where
  "empty_session_state =
     \<lparr>messages = [], user_request = None, parsed_items = None, stock_check_results = None,
      stock_availability = None, inventory_subtracted = None,
      updated_stock_quantities = None, payment_requested = None, payment_status = None,
      status = None, restocked_items = None, error_message = None,
      payment_confirmed = None\<rparr>"

text \<open>
  The order lines a verified commit works on: those of the metadata, else (when
  there are none, or the list is empty) those of the session data.
\<close>

definition find_parsed_items :: "string \<Rightarrow> string \<Rightarrow> commit_payment \<Rightarrow> agent_context \<Rightarrow> item list" where
  "find_parsed_items session sender msg ctx =
     (let from_metadata = (case metadata_parsed_items msg of Some xs \<Rightarrow> xs | None \<Rightarrow> []) in
      if from_metadata \<noteq> [] then from_metadata
      else case storage ctx (session_key sender session) of
             Some (SessionData sd) \<Rightarrow> (case sd_parsed_items sd of Some xs \<Rightarrow> xs | None \<Rightarrow> [])
           | _ \<Rightarrow> [])"

text \<open>
  "Extract parsed_items ... and run LangGraph workflow". A value under the session
  key that is no dictionary makes \<open>setdefault\<close> raise, which the handler catches.
\<close>

definition process_order :: "string \<Rightarrow> string \<Rightarrow> commit_payment \<Rightarrow> agent_context \<Rightarrow> agent_context" where
  "process_order session sender msg ctx =
     (let items = find_parsed_items session sender msg ctx in
      if items = [] then
        send sender (ChatMessage (check_mark @
          '' Payment received, but order details not found. Please contact support.'')) ctx
      else
        case storage ctx (session_key sender session) of
          Some (Flag b) \<Rightarrow>
            send sender (ChatMessage (check_mark @
              '' Payment received! Your order will be processed shortly.'')) ctx
        | stored \<Rightarrow>
            (let sd = (case stored of
                         Some (SessionData d) \<Rightarrow> d
                       | _ \<Rightarrow> \<lparr>sd_state = None, sd_history = None, sd_parsed_items = None\<rparr>);
                 st = (case sd_state sd of Some s \<Rightarrow> s | None \<Rightarrow> empty_session_state);
                 history = (case sd_history sd of Some h \<Rightarrow> h | None \<Rightarrow> []);
                 ((reply_text, new_state, new_history), db') =
                   run_agent_turn items st history (inventory_db ctx);
                 sd' = sd\<lparr>sd_state := Some (state_update st new_state),
                          sd_history := Some new_history\<rparr>;
                 ctx' = storage_set (session_key sender session) (SessionData sd')
                          (ctx\<lparr>inventory_db := db'\<rparr>)
             in if reply_text \<noteq> [] then send sender (ChatMessage reply_text) ctx'
                else send sender (ChatMessage (check_mark @
                       '' Payment received! Your order is being processed.'')) ctx'))"

text \<open>
  \<open>on_commit\<close>. \<open>skyfire_ok\<close> is the answer of the external \<open>verify_and_charge\<close>, which
  is asked only for the payment method \<open>"skyfire"\<close>.
\<close>

definition on_commit :: "bool \<Rightarrow> string \<Rightarrow> string \<Rightarrow> commit_payment \<Rightarrow> agent_context \<Rightarrow> agent_context" where
  "on_commit skyfire_ok session sender msg ctx =
     (let tx_key = storage_key (''commit_'' @ transaction_id msg) sender session in
      if storage ctx tx_key \<noteq> None then ctx
      else
        let method = funds_payment_method msg;
            verified = (if method = ''skyfire'' then skyfire_ok else False)
        in if verified then
             process_order session sender msg
               (confirm_session_payment session sender
                 (storage_set (storage_key ''paid'' sender session) (Flag True)
                   (send sender (CompletePayment (transaction_id msg))
                     (storage_set tx_key (Flag True) ctx))))
           else send sender (RejectPayment ''Payment verification failed'') ctx)"


section \<open>The order request (tools/database.py batch reads, protocols/chat_proto.py)\<close>

text \<open>The loop of \<open>check_stock_multiple\<close>, on the table of its one connection.\<close>

fun check_stock_multiple_loop ::
  "inventory \<Rightarrow> item list \<Rightarrow> (string \<times> int) list \<Rightarrow> (string \<times> int) list" where
  "check_stock_multiple_loop t [] results = results"
| "check_stock_multiple_loop t (it # items) results =
     (let original_name = item_name it;
          normalized_name = normalize_item_name original_name;
          result = select_item t original_name;
          result = (if result = None \<and> normalized_name \<noteq> original_name
                    then select_item t normalized_name else result);
          result = (if result = None then select_item_lower t original_name else result)
      in check_stock_multiple_loop t items
           (dict_set results original_name
              (case result of Some r \<Rightarrow> row_quantity r | None \<Rightarrow> 0)))"

definition check_stock_multiple :: "database \<Rightarrow> item list \<Rightarrow> (string \<times> int) list \<times> database" where
  "check_stock_multiple db items =
     (let t = get_connection db in (check_stock_multiple_loop t items [], Some t))"

fun get_items_prices_loop ::
  "inventory \<Rightarrow> item list \<Rightarrow> (string \<times> rat) list \<Rightarrow> (string \<times> rat) list" where
  "get_items_prices_loop t [] results = results"
| "get_items_prices_loop t (it # items) results =
     get_items_prices_loop t items
       (dict_set results (item_name it)
          (case select_item t (item_name it) of
             Some r \<Rightarrow> (case row_price r of Some p \<Rightarrow> p | None \<Rightarrow> 0)
           | None \<Rightarrow> 0))"

definition get_items_prices :: "database \<Rightarrow> item list \<Rightarrow> (string \<times> rat) list \<times> database" where
  "get_items_prices db items =
     (let t = get_connection db in (get_items_prices_loop t items [], Some t))"

text \<open>\<open>d.get(k, default)\<close>\<close>

definition dict_get :: "('k \<times> 'v) list \<Rightarrow> 'k \<Rightarrow> 'v \<Rightarrow> 'v" where
  "dict_get d k fallback = (case map_of d k of Some v \<Rightarrow> v | None \<Rightarrow> fallback)"

text \<open>A chat message: its identifier and its content items.\<close>

datatype content_item = TextContent string | OtherContent

record chat_message =
  msg_id :: string
  chat_content :: "content_item list"

fun text_parts :: "content_item list \<Rightarrow> string list" where
  "text_parts [] = []"
| "text_parts (TextContent t # cs) = (if t \<noteq> [] then t # text_parts cs else text_parts cs)"
| "text_parts (OtherContent # cs) = text_parts cs"

definition extract_text :: "chat_message \<Rightarrow> string" where
  "extract_text msg = strip (join [CHR 0x0A] (text_parts (chat_content msg)))"

text \<open>
  \<open>_get_session_data\<close>: the stored dictionary with its defaults filled in. A stored
  \<open>True\<close> has no \<open>setdefault\<close>: the call raises (\<open>None\<close>), and the handler ends there.
\<close>

definition default_chat_state :: session_state where
  "default_chat_state =
     empty_session_state\<lparr>payment_requested := Some False, payment_confirmed := Some False\<rparr>"

definition get_session_data :: "agent_context \<Rightarrow> string \<Rightarrow> string \<Rightarrow> session_data option" where
  "get_session_data ctx sender session =
     (case storage ctx (session_key sender session) of
        Some (Flag True) \<Rightarrow> None
      | Some (SessionData sd) \<Rightarrow>
          Some (sd\<lparr>sd_state := Some (case sd_state sd of Some st \<Rightarrow> st | None \<Rightarrow> default_chat_state),
                   sd_history := Some (case sd_history sd of Some h \<Rightarrow> h | None \<Rightarrow> [])\<rparr>)
      | _ \<Rightarrow> Some \<lparr>sd_state = Some default_chat_state, sd_history = Some [],
                     sd_parsed_items = None\<rparr>)"

text \<open>
  \<open>handle_chat\<close>. \<open>llm_result\<close> is what the external language model makes of the text
  (\<open>None\<close> when the call raises); the \<open>ParsedItem\<close> model rejects a quantity below 1.
  \<open>skyfire_service_id\<close> is the configured service identifier.
\<close>

definition unavailable_part :: "(string \<times> int) list \<Rightarrow> item \<Rightarrow> string" where
  "unavailable_part stock_results it =
     item_name it @ '' (requested: '' @ str_int (quantity it) @ '', available: '' @
       str_int (dict_get stock_results (item_name it) 0) @ '')''"

definition handle_chat ::
  "item list option \<Rightarrow> string option \<Rightarrow> string \<Rightarrow> string \<Rightarrow> chat_message \<Rightarrow>
     agent_context \<Rightarrow> agent_context" where
  "handle_chat llm_result skyfire_service_id session sender msg ctx =
     (let ctx1 = send sender (ChatAcknowledgement (msg_id msg)) ctx in
      if extract_text msg = [] then ctx1
      else
        case (case llm_result of
                Some items \<Rightarrow> if list_all (\<lambda>it. 1 \<le> quantity it) items then Some items else None
              | None \<Rightarrow> None) of
          None \<Rightarrow>
            send sender (ChatMessage
              ''Sorry, I couldn't understand your request. Please specify items and quantities.'')
              ctx1
        | Some items \<Rightarrow>
            (case get_session_data ctx1 sender session of
               None \<Rightarrow> ctx1
             | Some sd \<Rightarrow>
                 (let ctx2 = storage_set (session_key sender session)
                               (SessionData (sd\<lparr>sd_parsed_items := Some items\<rparr>)) ctx1;
                      (stock_results, db') = check_stock_multiple (inventory_db ctx2) items;
                      ctx3 = ctx2\<lparr>inventory_db := db'\<rparr>;
                      unavailable_items =
                        filter (\<lambda>it. dict_get stock_results (item_name it) 0 < quantity it) items
                  in if unavailable_items \<noteq> [] then
                       send sender (ChatMessage (''Sorry, we don't have enough stock for: '' @
                         join '', '' (map (unavailable_part stock_results) unavailable_items) @
                         ''. Please adjust your order.'')) ctx3
                     else if skyfire_service_id = None \<or> skyfire_service_id = Some [] then
                       send sender (ChatMessage
                         ''Payment service not configured. Please contact support.'') ctx3
                     else
                       (let (prices, db'') = get_items_prices (inventory_db ctx3) items in
                        send sender (RequestPayment items) (ctx3\<lparr>inventory_db := db''\<rparr>)))))"


section \<open>A concrete order\<close>

text \<open>
  The order of the specification's scenario A: \<open>alice\<close> asks for two tshirts in
  session \<open>s1\<close> against the seed catalog, and later commits payment \<open>tx1\<close>.
\<close>

definition fresh_context :: agent_context where
  "fresh_context = \<lparr>storage = Map.empty, inventory_db = Some sample_items, sent = []\<rparr>"

definition order_message :: chat_message where
  "order_message = \<lparr>msg_id = ''m1'', chat_content = [TextContent ''two tshirts please'']\<rparr>"

definition order_items :: "item list" where
  "order_items = [\<lparr>item_name = ''tshirt'', quantity = 2\<rparr>]"

definition commit_message :: commit_payment where
  "commit_message =
     \<lparr>transaction_id = ''tx1'', funds_currency = ''USDC'', funds_amount = ''0.001'',
      funds_payment_method = ''skyfire'', metadata_parsed_items = Some order_items\<rparr>"

definition awaiting_payment_context :: agent_context where
  "awaiting_payment_context =
     handle_chat (Some order_items) (Some ''service-1'') ''s1'' ''alice'' order_message fresh_context"

section \<open>Name normalisation: properties\<close>

text \<open>
  C6. The resolver agrees on the name variants the specification lists:
  \<open>"T-Shirts"\<close>, \<open>"tshirt"\<close> and \<open>"Tshirt"\<close> all resolve to \<open>"tshirt"\<close>, and \<open>"shoe"\<close> and
  \<open>"shoes"\<close> both resolve to \<open>"shoes"\<close>.
\<close>

theorem resolver_determinism:
  "normalize_item_name ''T-Shirts'' = normalize_item_name ''tshirt'' \<and>
   normalize_item_name ''tshirt'' = normalize_item_name ''Tshirt'' \<and>
   normalize_item_name ''Tshirt'' = ''tshirt'' \<and>
   normalize_item_name ''shoe'' = normalize_item_name ''shoes'' \<and>
   normalize_item_name ''shoes'' = ''shoes''"
  by code_simp

text \<open>
  C7, as the specification states it, fails: a name that matches no alias and no
  database name is not returned unchanged. \<open>"Widget"\<close> matches nothing, before or after
  cleaning, and comes back as \<open>"widget"\<close>.
\<close>

theorem unresolvable_name_counterexample:
  "map_of name_mappings ''Widget'' = None \<and> ''Widget'' \<notin> set db_item_names \<and>
   unresolvable ''Widget'' \<and>
   normalize_item_name ''Widget'' = ''widget'' \<and>
   normalize_item_name ''Widget'' \<noteq> ''Widget''"
  by code_simp

text \<open>
  C7, amended. \<open>normalize_item_name\<close> is a total function (it returns a string for
  every name). A name that matches no alias-table entry and no database name, also
  after the trailing-\<open>s\<close> retry, is returned lower-cased, stripped of surrounding
  whitespace and with its hyphens and spaces removed; so it is returned unchanged
  exactly when it already has that form.
\<close>

theorem unresolvable_name_cleaned:
  "unresolvable name \<Longrightarrow>
     normalize_item_name name = clean_name name \<and>
     (normalize_item_name name = name) = (clean_name name = name)"
  by (auto simp: unresolvable_def normalize_item_name_def Let_def clean_name_def
      lower_def strip_def remove_char_def split: option.splits)

theorem unresolvable_name_cleaned_witness:
  "unresolvable ''Blue Scarf'' \<and> normalize_item_name ''Blue Scarf'' = ''bluescarf'' \<and>
   unresolvable ''scarf'' \<and> normalize_item_name ''scarf'' = ''scarf''"
proof -
  have u1: "unresolvable ''Blue Scarf''" by code_simp
  have u2: "unresolvable ''scarf''" by code_simp
  have c1: "clean_name ''Blue Scarf'' = ''bluescarf''" by code_simp
  have c2: "clean_name ''scarf'' = ''scarf''" by code_simp
  show ?thesis
    using unresolvable_name_cleaned [OF u1] unresolvable_name_cleaned [OF u2] u1 u2 c1 c2
    by simp
qed

section \<open>The inventory table: properties\<close>

lemma get_connection_Some [simp]: "get_connection (Some t) = t"
  by (simp add: get_connection_def)

lemma get_connection_None [simp]: "get_connection None = sample_items"
  by (simp add: get_connection_def init_database_def)

lemma select_item_update_quantity:
  "select_item (update_quantity t n v) m =
     (if m = n then map_option (\<lambda>r. r\<lparr>row_quantity := v\<rparr>) (select_item t n)
      else select_item t m)"
  by (induction t) (auto simp: select_item_def update_quantity_def)

lemma filter_update_quantity:
  "filter (\<lambda>r. row_item_name r \<noteq> n) (update_quantity t n v) = filter (\<lambda>r. row_item_name r \<noteq> n) t"
  by (induction t) (auto simp: update_quantity_def)

lemma length_update_quantity [simp]: "length (update_quantity t n v) = length t"
  by (simp add: update_quantity_def)

lemma names_update_quantity [simp]:
  "map row_item_name (update_quantity t n v) = map row_item_name t"
  by (induction t) (auto simp: update_quantity_def)

lemma prices_update_quantity [simp]:
  "map row_price (update_quantity t n v) = map row_price t"
  by (induction t) (auto simp: update_quantity_def)

text \<open>
  C5. \<open>subtract_inventory\<close> returns \<open>False\<close> and leaves the table (as its connection
  yields it) as it is when the item has no row or its quantity is less than the
  requested quantity. Otherwise it
  returns \<open>True\<close>, the item's row has its quantity decreased by exactly the requested
  quantity, and the rows of all other items, all names and all prices are unchanged.
\<close>

theorem subtract_inventory_contract:
  fixes db :: database
  defines "t \<equiv> get_connection db"
  shows "(select_item t name = None \<or>
          (\<exists>r. select_item t name = Some r \<and> row_quantity r < qty)
          \<longrightarrow> subtract_inventory db name qty = (False, Some t)) \<and>
         (\<forall>r. select_item t name = Some r \<and> qty \<le> row_quantity r \<longrightarrow>
            (\<exists>t'. subtract_inventory db name qty = (True, Some t') \<and>
                  select_item t' name = Some (r\<lparr>row_quantity := row_quantity r - qty\<rparr>) \<and>
                  filter (\<lambda>x. row_item_name x \<noteq> name) t' =
                    filter (\<lambda>x. row_item_name x \<noteq> name) t \<and>
                  map row_item_name t' = map row_item_name t \<and>
                  map row_price t' = map row_price t))"
  unfolding t_def
  by (auto simp: subtract_inventory_def Let_def select_item_update_quantity
      filter_update_quantity)


theorem subtract_inventory_contract_witness:
  "subtract_inventory (Some sample_items) ''tshirt'' 100 = (False, Some sample_items) \<and>
   subtract_inventory (Some sample_items) ''Tshirt'' 1 = (False, Some sample_items) \<and>
   (\<exists>t'. subtract_inventory (Some sample_items) ''tshirt'' 2 = (True, Some t') \<and>
         select_item t' ''tshirt'' =
           Some \<lparr>row_item_name = ''tshirt'', row_quantity = 8, row_price = Some (1999 / 100)\<rparr> \<and>
         filter (\<lambda>x. row_item_name x \<noteq> ''tshirt'') t' =
           filter (\<lambda>x. row_item_name x \<noteq> ''tshirt'') sample_items)"
proof -
  let ?r = "\<lparr>row_item_name = ''tshirt'', row_quantity = 10, row_price = Some (1999 / 100)\<rparr>"
  have sel: "select_item (get_connection (Some sample_items)) ''tshirt'' = Some ?r"
    by (simp add: select_item_def sample_items_def)
  have unknown: "select_item (get_connection (Some sample_items)) ''Tshirt'' = None"
    by (simp add: select_item_def sample_items_def)
  have a: "subtract_inventory (Some sample_items) ''tshirt'' 100 = (False, Some sample_items)"
    using subtract_inventory_contract [of "Some sample_items" "''tshirt''" 100] sel by simp
  have b: "subtract_inventory (Some sample_items) ''Tshirt'' 1 = (False, Some sample_items)"
    using subtract_inventory_contract [of "Some sample_items" "''Tshirt''" 1] unknown by simp
  have c: "\<exists>t'. subtract_inventory (Some sample_items) ''tshirt'' 2 = (True, Some t') \<and>
         select_item t' ''tshirt'' =
           Some \<lparr>row_item_name = ''tshirt'', row_quantity = 8, row_price = Some (1999 / 100)\<rparr> \<and>
         filter (\<lambda>x. row_item_name x \<noteq> ''tshirt'') t' =
           filter (\<lambda>x. row_item_name x \<noteq> ''tshirt'') sample_items"
    using subtract_inventory_contract [of "Some sample_items" "''tshirt''" 2] sel by auto
  show ?thesis using a b c by blast
qed

text \<open>
  C9. On the seed catalog \<open>check_stock "T-Shirts"\<close> reports 10 through the normalised
  name, while \<open>subtract_inventory\<close> and \<open>restock_item\<close> with that name fail for every
  quantity and leave the table unchanged. In general both fail, without changing the
  table, whenever no row carries exactly the given name: they apply no normalisation.
\<close>

theorem stock_check_passes_reservation_fails:
  "fst (check_stock (Some sample_items) ''T-Shirts'') = 10 \<and>
   (\<forall>q. subtract_inventory (Some sample_items) ''T-Shirts'' q = (False, Some sample_items)) \<and>
   (\<forall>q. restock_item (Some sample_items) ''T-Shirts'' q = (False, Some sample_items)) \<and>
   (\<forall>db name q. select_item (get_connection db) name = None \<longrightarrow>
      subtract_inventory db name q = (False, Some (get_connection db)) \<and>
      restock_item db name q = (False, Some (get_connection db)))"
proof -
  have norm: "normalize_item_name ''T-Shirts'' = ''tshirt''" by code_simp
  have sel: "select_item sample_items ''T-Shirts'' = None"
    by (simp add: select_item_def sample_items_def)
  have sel': "select_item sample_items ''tshirt'' =
      Some \<lparr>row_item_name = ''tshirt'', row_quantity = 10, row_price = Some (1999 / 100)\<rparr>"
    by (simp add: select_item_def sample_items_def)
  have "fst (check_stock (Some sample_items) ''T-Shirts'') = 10"
    by (simp add: check_stock_def Let_def norm sel sel')
  moreover have "subtract_inventory db name q = (False, Some (get_connection db)) \<and>
      restock_item db name q = (False, Some (get_connection db))"
    if "select_item (get_connection db) name = None" for db name q
    using that by (simp add: subtract_inventory_def restock_item_def)
  ultimately show ?thesis using sel by simp
qed

theorem stock_check_passes_reservation_fails_witness:
  "fst (check_stock None ''Shoe'') = 8 \<and>
   subtract_inventory None ''Shoe'' 1 = (False, Some sample_items) \<and>
   restock_item None ''Shoe'' 1 = (False, Some sample_items)"
proof -
  have norm: "normalize_item_name ''Shoe'' = ''shoes''" by code_simp
  have sel: "select_item (get_connection None) ''Shoe'' = None"
    by (simp add: select_item_def sample_items_def)
  have sel': "select_item sample_items ''shoes'' =
      Some \<lparr>row_item_name = ''shoes'', row_quantity = 8, row_price = Some (7999 / 100)\<rparr>"
    by (simp add: select_item_def sample_items_def)
  have "fst (check_stock None ''Shoe'') = 8"
    using sel by (simp add: check_stock_def Let_def norm sel')
  then show ?thesis
    using stock_check_passes_reservation_fails sel by simp
qed








section \<open>Sequences of store operations: properties\<close>

lemma quantity_on_hand_update:
  "quantity_on_hand (update_quantity t n v) m =
     (if m = n \<and> select_item t n \<noteq> None then v else quantity_on_hand t m)"
  by (auto simp: quantity_on_hand_def select_item_update_quantity split: option.splits)

lemma quantities_nonneg_update:
  "quantities_nonneg t \<Longrightarrow> 0 \<le> v \<Longrightarrow> quantities_nonneg (update_quantity t n v)"
  by (induction t) (auto simp: quantities_nonneg_def update_quantity_def)

lemma select_item_nonneg:
  "quantities_nonneg t \<Longrightarrow> select_item t n = Some r \<Longrightarrow> 0 \<le> row_quantity r"
  by (induction t) (auto simp: quantities_nonneg_def select_item_def split: if_splits)

lemma quantity_on_hand_nonneg: "quantities_nonneg t \<Longrightarrow> 0 \<le> quantity_on_hand t n"
  by (auto simp: quantity_on_hand_def dest: select_item_nonneg split: option.splits)

lemma apply_op_nonneg:
  assumes "quantities_nonneg (get_connection db)" "restock_quantity_nonneg x"
  shows "quantities_nonneg (get_connection (snd (apply_op db x)))"
  using assms
  by (cases x)
     (auto simp: subtract_inventory_def restock_item_def Let_def
           intro!: quantities_nonneg_update dest: select_item_nonneg split: option.splits)

lemma subtract_inventory_balance:
  "quantity_on_hand (get_connection (snd (subtract_inventory db m q))) n =
     quantity_on_hand (get_connection db) n
       - (if fst (subtract_inventory db m q) \<and> m = n then q else 0)"
proof (cases "select_item (get_connection db) m")
  case None
  then show ?thesis by (simp add: subtract_inventory_def)
next
  case (Some r)
  then have "quantity_on_hand (get_connection db) m = row_quantity r"
    by (simp add: quantity_on_hand_def)
  then show ?thesis
    using Some by (cases "m = n") (auto simp: subtract_inventory_def Let_def quantity_on_hand_update)
qed

lemma restock_item_balance:
  "quantity_on_hand (get_connection (snd (restock_item db m q))) n =
     quantity_on_hand (get_connection db) n
       + (if fst (restock_item db m q) \<and> m = n then q else 0)"
proof (cases "select_item (get_connection db) m")
  case None
  then show ?thesis by (simp add: restock_item_def)
next
  case (Some r)
  then have "quantity_on_hand (get_connection db) m = row_quantity r"
    by (simp add: quantity_on_hand_def)
  then show ?thesis
    using Some by (cases "m = n") (auto simp: restock_item_def Let_def quantity_on_hand_update)
qed

lemma apply_op_balance:
  "quantity_on_hand (get_connection (snd (apply_op db x))) n =
     quantity_on_hand (get_connection db) n - reserved n (x, fst (apply_op db x))
       + restocked n (x, fst (apply_op db x))"
  by (cases x) (simp_all add: subtract_inventory_balance restock_item_balance)

lemma run_ops_nonneg:
  assumes "quantities_nonneg (get_connection db)" "list_all restock_quantity_nonneg xs"
  shows "quantities_nonneg (get_connection (snd (run_ops db xs)))"
  using assms
proof (induction xs arbitrary: db)
  case Nil
  then show ?case by simp
next
  case (Cons x xs)
  obtain ok db' where step: "apply_op db x = (ok, db')" by (cases "apply_op db x")
  have "quantities_nonneg (get_connection db')"
    using apply_op_nonneg [of db x] Cons.prems step by simp
  then have "quantities_nonneg (get_connection (snd (run_ops db' xs)))"
    using Cons.IH Cons.prems by simp
  then show ?case using step by (simp add: split_beta)
qed

lemma run_ops_balance:
  "quantity_on_hand (get_connection (snd (run_ops db xs))) n =
     quantity_on_hand (get_connection db) n
       - sum_list (map (reserved n) (zip xs (fst (run_ops db xs))))
       + sum_list (map (restocked n) (zip xs (fst (run_ops db xs))))"
proof (induction xs arbitrary: db)
  case Nil
  then show ?case by simp
next
  case (Cons x xs)
  obtain ok db' where step: "apply_op db x = (ok, db')" by (cases "apply_op db x")
  obtain oks db'' where rest: "run_ops db' xs = (oks, db'')" by (cases "run_ops db' xs")
  have "quantity_on_hand (get_connection db') n =
      quantity_on_hand (get_connection db) n - reserved n (x, ok) + restocked n (x, ok)"
    using apply_op_balance [of db x n] step by simp
  moreover have "quantity_on_hand (get_connection db'') n =
      quantity_on_hand (get_connection db') n
       - sum_list (map (reserved n) (zip xs oks)) + sum_list (map (restocked n) (zip xs oks))"
    using Cons.IH [of db'] rest by simp
  ultimately show ?case using step rest by simp
qed

lemma restocked_reserve_only:
  "list_all is_reserve xs \<Longrightarrow> sum_list (map (restocked n) (zip xs oks)) = 0"
proof (induction xs arbitrary: oks)
  case Nil
  then show ?case by simp
next
  case (Cons x xs)
  then show ?case by (cases oks; cases x) auto
qed


text \<open>
  C3, as the specification states it, fails: \<open>restock_item\<close> adds the quantity it is
  given without any check, so a restock call with a negative quantity drives a
  quantity below zero. On the seed catalog \<open>restock_item "jacket" (-4)\<close> succeeds and
  leaves \<open>-1\<close> jackets.
\<close>

theorem negative_restock_counterexample:
  "quantities_nonneg sample_items \<and>
   run_ops (Some sample_items) [Restock ''jacket'' (- 4)] =
     ([True], Some (update_quantity sample_items ''jacket'' (- 1))) \<and>
   quantity_on_hand (update_quantity sample_items ''jacket'' (- 1)) ''jacket'' = - 1 \<and>
   \<not> quantities_nonneg (get_connection (snd (run_ops (Some sample_items) [Restock ''jacket'' (- 4)])))"
  by (simp add: quantities_nonneg_def sample_items_def restock_item_def select_item_def
      update_quantity_def quantity_on_hand_def)

text \<open>
  C3, amended. For every sequence of reserve and restock calls whose restock
  quantities are not negative, run on a store whose quantities are all non-negative:
  every quantity stays non-negative; a reservation that would drive a quantity below
  zero returns \<open>False\<close> and leaves the table unchanged; and the successful
  reservations against an item sum to at most the quantity present before the
  sequence plus what the sequence restocked to that item, hence to at most the
  quantity present before when the sequence holds reservations only.
\<close>

theorem store_quantities_never_negative:
  assumes "quantities_nonneg (get_connection db)"
    and "list_all restock_quantity_nonneg xs"
  shows "quantities_nonneg (get_connection (snd (run_ops db xs))) \<and>
         0 \<le> quantity_on_hand (get_connection (snd (run_ops db xs))) n \<and>
         (\<forall>r q. select_item (get_connection db) n = Some r \<and> row_quantity r - q < 0 \<longrightarrow>
            subtract_inventory db n q = (False, Some (get_connection db))) \<and>
         sum_list (map (reserved n) (zip xs (fst (run_ops db xs))))
           \<le> quantity_on_hand (get_connection db) n
               + sum_list (map (restocked n) (zip xs (fst (run_ops db xs)))) \<and>
         (list_all is_reserve xs \<longrightarrow>
            sum_list (map (reserved n) (zip xs (fst (run_ops db xs))))
              \<le> quantity_on_hand (get_connection db) n)"
proof -
  have inv: "quantities_nonneg (get_connection (snd (run_ops db xs)))"
    using assms by (rule run_ops_nonneg)
  then have final: "0 \<le> quantity_on_hand (get_connection (snd (run_ops db xs))) n"
    by (rule quantity_on_hand_nonneg)
  have reject: "\<forall>r q. select_item (get_connection db) n = Some r \<and> row_quantity r - q < 0 \<longrightarrow>
      subtract_inventory db n q = (False, Some (get_connection db))"
    by (simp add: subtract_inventory_def)
  have bound: "sum_list (map (reserved n) (zip xs (fst (run_ops db xs))))
      \<le> quantity_on_hand (get_connection db) n
          + sum_list (map (restocked n) (zip xs (fst (run_ops db xs))))"
    using final run_ops_balance [of db xs n] by linarith
  have only: "list_all is_reserve xs \<longrightarrow>
      sum_list (map (reserved n) (zip xs (fst (run_ops db xs))))
        \<le> quantity_on_hand (get_connection db) n"
  proof
    assume "list_all is_reserve xs"
    then have "sum_list (map (restocked n) (zip xs (fst (run_ops db xs)))) = 0"
      by (rule restocked_reserve_only)
    with bound show "sum_list (map (reserved n) (zip xs (fst (run_ops db xs))))
        \<le> quantity_on_hand (get_connection db) n"
      by linarith
  qed
  from inv final reject bound only show ?thesis by blast
qed

theorem store_quantities_never_negative_witness:
  "quantities_nonneg (get_connection (Some sample_items)) \<and>
   list_all restock_quantity_nonneg
     [Reserve ''jacket'' 2, Reserve ''jacket'' 2, Restock ''jacket'' 1, Reserve ''jacket'' 2] \<and>
   fst (run_ops (Some sample_items)
     [Reserve ''jacket'' 2, Reserve ''jacket'' 2, Restock ''jacket'' 1, Reserve ''jacket'' 2])
     = [True, False, True, True] \<and>
   quantities_nonneg (get_connection (snd (run_ops (Some sample_items)
     [Reserve ''jacket'' 2, Reserve ''jacket'' 2, Restock ''jacket'' 1, Reserve ''jacket'' 2]))) \<and>
   sum_list (map (reserved ''jacket'') (zip
     [Reserve ''jacket'' 2, Reserve ''jacket'' 2, Restock ''jacket'' 1, Reserve ''jacket'' 2]
     [True, False, True, True])) = 4 \<and>
   quantity_on_hand sample_items ''jacket'' = 3"
proof -
  let ?xs = "[Reserve ''jacket'' 2, Reserve ''jacket'' 2, Restock ''jacket'' 1, Reserve ''jacket'' 2]"
  have h1: "quantities_nonneg (get_connection (Some sample_items))"
    by (simp add: quantities_nonneg_def sample_items_def)
  have h2: "list_all restock_quantity_nonneg ?xs" by simp
  have run: "fst (run_ops (Some sample_items) ?xs) = [True, False, True, True]"
    by (simp add: sample_items_def subtract_inventory_def restock_item_def select_item_def
        update_quantity_def)
  have q: "quantity_on_hand sample_items ''jacket'' = 3"
    by (simp add: quantity_on_hand_def select_item_def sample_items_def)
  show ?thesis
    using store_quantities_never_negative [OF h1 h2, of "''jacket''"] h1 h2 run q by simp
qed

section \<open>The workflow graph: properties\<close>

lemma check_stock_db [simp]: "snd (check_stock db n) = Some (get_connection db)"
  by (simp add: check_stock_def Let_def)

declare run_from.simps [simp del]

lemma run_from_cashier:
  "run_from cashier state db = ([(cashier, cashier_node state)], db)"
  by (subst run_from.simps)
     (simp add: path_map_def route_after_payment_def cashier_node_def END_def)

lemma run_from_warehouse:
  "run_from warehouse state db =
     ([(warehouse, fst (warehouse_node state db)),
       (cashier, cashier_node (fst (warehouse_node state db)))],
      snd (warehouse_node state db))"
  by (subst run_from.simps) (simp add: split_beta run_from_cashier)

lemma run_from_stock_management:
  "fst ` set (fst (run_from stock_management state db)) \<subseteq> {stock_management, warehouse, cashier}"
  by (subst run_from.simps)
     (auto simp: split_beta run_from_warehouse path_map_def END_def split: option.splits)

text \<open>
  C10. \<open>cashier_node\<close> sets \<open>payment_status\<close> to \<open>"successful"\<close> and \<open>status\<close> to
  \<open>"completed"\<close> whatever state it is given, so \<open>route_after_payment\<close> on its output
  answers \<open>END\<close> and never \<open>"restocker"\<close>: no run of the graph, from any initial state
  and database, visits the restocker node. Called directly, as the test block does,
  \<open>restocker_node\<close> restocks.
\<close>

theorem restocker_unreachable:
  "payment_status (cashier_node state) = Some ''successful'' \<and>
   status (cashier_node state) = Some ''completed'' \<and>
   route_after_payment (cashier_node state) = END \<and>
   route_after_payment (cashier_node state) \<noteq> ''restocker'' \<and>
   next_node cashier (cashier_node state) = None \<and>
   restocker \<notin> fst ` set (fst (stream start_state db)) \<and>
   quantity_on_hand
     (get_connection (snd (restocker_node
        (test_state_for_restocker [\<lparr>item_name = ''tshirt'', quantity = 2\<rparr>])
        (Some sample_items)))) ''tshirt'' = 12"
proof -
  have a: "payment_status (cashier_node state) = Some ''successful''"
    and b: "status (cashier_node state) = Some ''completed''"
    by (simp_all add: cashier_node_def)
  have c: "route_after_payment (cashier_node state) = END"
    by (simp add: route_after_payment_def a)
  have d: "route_after_payment (cashier_node state) \<noteq> ''restocker''"
    by (simp add: c END_def)
  have e: "next_node cashier (cashier_node state) = None"
    by (simp add: path_map_def c END_def)
  have f: "restocker \<notin> fst ` set (fst (stream start_state db))"
    using run_from_stock_management [of start_state db] by (auto simp: stream_def)
  have g: "quantity_on_hand
     (get_connection (snd (restocker_node
        (test_state_for_restocker [\<lparr>item_name = ''tshirt'', quantity = 2\<rparr>])
        (Some sample_items)))) ''tshirt'' = 12"
    by (simp add: restocker_node_def test_state_for_restocker_def get_parsed_items_def
        restock_item_def select_item_def sample_items_def update_quantity_def
        quantity_on_hand_def)
  from a b c d e f g show ?thesis by blast
qed


theorem restocker_unreachable_witness:
  "map fst (fst (stream (first_turn_state [\<lparr>item_name = ''tshirt'', quantity = 2\<rparr>])
      (Some sample_items))) = [stock_management, warehouse, cashier] \<and>
   restocker \<notin> fst ` set (fst (stream (first_turn_state [\<lparr>item_name = ''tshirt'', quantity = 2\<rparr>])
      (Some sample_items)))"
proof -
  have "normalize_item_name ''tshirt'' = ''tshirt''" by code_simp
  then have "route_after_stock_check (fst (stock_management_node
      (first_turn_state [\<lparr>item_name = ''tshirt'', quantity = 2\<rparr>]) (Some sample_items)))
      = ''warehouse''"
    by (simp add: stock_management_node_def first_turn_state_def get_parsed_items_def
        check_stock_def select_item_def sample_items_def route_after_stock_check_def)
  then have "map fst (fst (stream (first_turn_state [\<lparr>item_name = ''tshirt'', quantity = 2\<rparr>])
      (Some sample_items))) = [stock_management, warehouse, cashier]"
    unfolding stream_def
    by (subst run_from.simps) (simp add: split_beta path_map_def run_from_warehouse)
  then show ?thesis
    using restocker_unreachable
      [of _ "first_turn_state [\<lparr>item_name = ''tshirt'', quantity = 2\<rparr>]" "Some sample_items"]
    by simp
qed

lemma warehouse_loop_failure_split:
  "warehouse_loop db items updated = (Inl failed, db') \<Longrightarrow>
     \<exists>pre it post u dbp. items = pre @ it # post \<and> item_name it = failed \<and>
        warehouse_loop db pre updated = (Inr u, dbp) \<and>
        subtract_inventory dbp (item_name it) (quantity it) = (False, db')"
proof (induction items arbitrary: db updated)
  case Nil
  then show ?case by simp
next
  case (Cons x items)
  obtain ok db1 where sub: "subtract_inventory db (item_name x) (quantity x) = (ok, db1)"
    by (cases "subtract_inventory db (item_name x) (quantity x)")
  show ?case
  proof (cases ok)
    case False
    with Cons.prems sub have "item_name x = failed" "db1 = db'" by simp_all
    with sub False have "x # items = [] @ x # items \<and> item_name x = failed \<and>
        warehouse_loop db [] updated = (Inr updated, db) \<and>
        subtract_inventory db (item_name x) (quantity x) = (False, db')"
      by simp
    then show ?thesis by blast
  next
    case True
    obtain uq db2 where chk: "check_stock db1 (item_name x) = (uq, db2)"
      by (cases "check_stock db1 (item_name x)")
    from Cons.prems sub True chk
    have "warehouse_loop db2 items (dict_set updated (item_name x) uq) = (Inl failed, db')"
      by simp
    from Cons.IH [OF this] obtain pre it post u dbp where
      split: "items = pre @ it # post" "item_name it = failed"
        "warehouse_loop db2 pre (dict_set updated (item_name x) uq) = (Inr u, dbp)"
        "subtract_inventory dbp (item_name it) (quantity it) = (False, db')"
      by blast
    from split(3) sub True chk have "warehouse_loop db (x # pre) updated = (Inr u, dbp)"
      by simp
    with split have "x # items = (x # pre) @ it # post \<and> item_name it = failed \<and>
        warehouse_loop db (x # pre) updated = (Inr u, dbp) \<and>
        subtract_inventory dbp (item_name it) (quantity it) = (False, db')"
      by simp
    then show ?thesis by blast
  qed
qed

lemma warehouse_loop_success_balance:
  "warehouse_loop db items updated = (Inr u, db') \<Longrightarrow>
     quantity_on_hand (get_connection db') n =
       quantity_on_hand (get_connection db) n
         - sum_list (map quantity (filter (\<lambda>i. item_name i = n) items))"
proof (induction items arbitrary: db updated)
  case Nil
  then show ?case by simp
next
  case (Cons x items)
  obtain ok db1 where sub: "subtract_inventory db (item_name x) (quantity x) = (ok, db1)"
    by (cases "subtract_inventory db (item_name x) (quantity x)")
  obtain uq db2 where chk: "check_stock db1 (item_name x) = (uq, db2)"
    by (cases "check_stock db1 (item_name x)")
  from Cons.prems sub have ok: ok by (cases ok) simp_all
  from chk have db2: "db2 = Some (get_connection db1)"
    using check_stock_db [of db1 "item_name x"] by simp
  from Cons.prems sub ok chk
  have rest: "warehouse_loop db2 items (dict_set updated (item_name x) uq) = (Inr u, db')"
    by simp
  have step: "quantity_on_hand (get_connection db1) n =
      quantity_on_hand (get_connection db) n - (if item_name x = n then quantity x else 0)"
    using subtract_inventory_balance [of db "item_name x" "quantity x" n] sub ok by simp
  from Cons.IH [OF rest] db2 step show ?case by simp
qed

lemma subtract_inventory_failed_db:
  "subtract_inventory db n q = (False, db') \<Longrightarrow> get_connection db' = get_connection db"
  by (auto simp: subtract_inventory_def Let_def split: option.splits if_splits)

text \<open>
  C1, as the specification states it, fails: \<open>warehouse_node\<close> has no rollback. The
  order \<open>tshirt x 2, T-Shirts x 1\<close> on the seed catalog passes the stock check (10
  tshirts are reported for both names); the warehouse reserves two tshirts, then
  fails on \<open>"T-Shirts"\<close>, which no row carries, and returns without restocking. The run
  goes on to the cashier and ends with status \<open>"completed"\<close>, not \<open>"rejected"\<close>, and
  with 8 tshirts instead of the 10 present before the reservation.
\<close>

theorem partial_reservation_counterexample:
  "quantity_on_hand sample_items ''tshirt'' = 10 \<and>
   map fst (fst (stream (first_turn_state
       [\<lparr>item_name = ''tshirt'', quantity = 2\<rparr>, \<lparr>item_name = ''T-Shirts'', quantity = 1\<rparr>])
       (Some sample_items))) = [stock_management, warehouse, cashier] \<and>
   error_message (snd (last (fst (stream (first_turn_state
       [\<lparr>item_name = ''tshirt'', quantity = 2\<rparr>, \<lparr>item_name = ''T-Shirts'', quantity = 1\<rparr>])
       (Some sample_items))))) = Some ''Failed to subtract inventory for T-Shirts'' \<and>
   status (snd (last (fst (stream (first_turn_state
       [\<lparr>item_name = ''tshirt'', quantity = 2\<rparr>, \<lparr>item_name = ''T-Shirts'', quantity = 1\<rparr>])
       (Some sample_items))))) = Some ''completed'' \<and>
   quantity_on_hand (get_connection (snd (stream (first_turn_state
       [\<lparr>item_name = ''tshirt'', quantity = 2\<rparr>, \<lparr>item_name = ''T-Shirts'', quantity = 1\<rparr>])
       (Some sample_items)))) ''tshirt'' = 8"
proof -
  let ?items = "[\<lparr>item_name = ''tshirt'', quantity = 2\<rparr>, \<lparr>item_name = ''T-Shirts'', quantity = 1\<rparr>]"
  let ?t8 = "update_quantity sample_items ''tshirt'' 8"
  have n1: "normalize_item_name ''tshirt'' = ''tshirt''" by code_simp
  have n2: "normalize_item_name ''T-Shirts'' = ''tshirt''" by code_simp
  have c1: "check_stock (Some sample_items) ''tshirt'' = (10, Some sample_items)"
    by (simp add: check_stock_def n1 select_item_def sample_items_def)
  have c2: "check_stock (Some sample_items) ''T-Shirts'' = (10, Some sample_items)"
    by (simp add: check_stock_def n2 select_item_def sample_items_def)
  have sm: "stock_management_node (first_turn_state ?items) (Some sample_items) =
      ((first_turn_state ?items)\<lparr>stock_check_results := Some
          [(''tshirt'', \<lparr>available_qty = 10, requested_qty = 2, is_available = True\<rparr>),
           (''T-Shirts'', \<lparr>available_qty = 10, requested_qty = 1, is_available = True\<rparr>)],
        stock_availability := Some True, status := Some ''checking_stock''\<rparr>, Some sample_items)"
    (is "_ = (?s1, _)")
    by (simp add: stock_management_node_def first_turn_state_def get_parsed_items_def c1 c2)
  have s1: "subtract_inventory (Some sample_items) ''tshirt'' 2 = (True, Some ?t8)"
    by (simp add: subtract_inventory_def select_item_def sample_items_def)
  have c3: "check_stock (Some ?t8) ''tshirt'' = (8, Some ?t8)"
    by (simp add: check_stock_def n1 select_item_def sample_items_def update_quantity_def)
  have s2: "subtract_inventory (Some ?t8) ''T-Shirts'' 1 = (False, Some ?t8)"
    by (simp add: subtract_inventory_def select_item_def sample_items_def update_quantity_def)
  have wl: "warehouse_loop (Some sample_items) ?items [] = (Inl ''T-Shirts'', Some ?t8)"
    by (simp add: s1 c3 s2)
  have wh: "warehouse_node ?s1 (Some sample_items) =
      (?s1\<lparr>status := Some ''subtracting_inventory'',
            error_message := Some ''Failed to subtract inventory for T-Shirts''\<rparr>, Some ?t8)"
    by (simp add: warehouse_node_def get_parsed_items_def first_turn_state_def s1 c3 s2)
  have route: "route_after_stock_check ?s1 = ''warehouse''"
    by (simp add: route_after_stock_check_def)
  have run: "stream (first_turn_state ?items) (Some sample_items) =
      ([(stock_management, ?s1),
        (warehouse, fst (warehouse_node ?s1 (Some sample_items))),
        (cashier, cashier_node (fst (warehouse_node ?s1 (Some sample_items))))], Some ?t8)"
    unfolding stream_def
    by (subst run_from.simps) (simp add: sm route path_map_def run_from_warehouse wh)
  have q0: "quantity_on_hand sample_items ''tshirt'' = 10"
    by (simp add: quantity_on_hand_def select_item_def sample_items_def)
  have q8: "quantity_on_hand ?t8 ''tshirt'' = 8"
    by (simp add: quantity_on_hand_def select_item_def sample_items_def update_quantity_def)
  show ?thesis
    by (simp add: run q0 q8 wh cashier_node_def)
qed


text \<open>
  C1, amended. When the reservation loop of \<open>warehouse_node\<close> fails partway, the node
  stops at the failing item and calls no restock. It reports the failure through
  \<open>error_message\<close>, with status \<open>"subtracting_inventory"\<close> and \<open>inventory_subtracted\<close>
  left as it was. The items before the failing one stay reserved: every item's
  quantity on hand afterwards is its quantity before the reservation minus the
  quantities of the already reserved order lines of that name, and the failing call
  itself changed nothing.
\<close>

theorem warehouse_failure_keeps_partial_reservations:
  assumes "warehouse_loop db (get_parsed_items state) [] = (Inl failed, db')"
  shows "warehouse_node state db =
           (state\<lparr>status := Some ''subtracting_inventory'',
                  error_message := Some (''Failed to subtract inventory for '' @ failed)\<rparr>, db') \<and>
         (\<exists>pre it post u dbp.
            get_parsed_items state = pre @ it # post \<and> item_name it = failed \<and>
            warehouse_loop db pre [] = (Inr u, dbp) \<and>
            subtract_inventory dbp failed (quantity it) = (False, db') \<and>
            get_connection db' = get_connection dbp \<and>
            (\<forall>n. quantity_on_hand (get_connection db') n =
                   quantity_on_hand (get_connection db) n
                     - sum_list (map quantity (filter (\<lambda>i. item_name i = n) pre))))"
proof -
  from assms have nonempty: "get_parsed_items state \<noteq> []"
    by (cases "get_parsed_items state") simp_all
  with assms have node: "warehouse_node state db =
      (state\<lparr>status := Some ''subtracting_inventory'',
             error_message := Some (''Failed to subtract inventory for '' @ failed)\<rparr>, db')"
    by (simp add: warehouse_node_def)
  from warehouse_loop_failure_split [OF assms] obtain pre it post u dbp where
    split: "get_parsed_items state = pre @ it # post" "item_name it = failed"
      "warehouse_loop db pre [] = (Inr u, dbp)"
      "subtract_inventory dbp (item_name it) (quantity it) = (False, db')"
    by blast
  from split(4) have same: "get_connection db' = get_connection dbp"
    by (rule subtract_inventory_failed_db)
  have "\<forall>n. quantity_on_hand (get_connection db') n =
      quantity_on_hand (get_connection db) n
        - sum_list (map quantity (filter (\<lambda>i. item_name i = n) pre))"
    using warehouse_loop_success_balance [OF split(3)] same by simp
  with split same have "get_parsed_items state = pre @ it # post \<and> item_name it = failed \<and>
      warehouse_loop db pre [] = (Inr u, dbp) \<and>
      subtract_inventory dbp failed (quantity it) = (False, db') \<and>
      get_connection db' = get_connection dbp \<and>
      (\<forall>n. quantity_on_hand (get_connection db') n =
             quantity_on_hand (get_connection db) n
               - sum_list (map quantity (filter (\<lambda>i. item_name i = n) pre)))"
    by simp
  then have "\<exists>pre it post u dbp.
      get_parsed_items state = pre @ it # post \<and> item_name it = failed \<and>
      warehouse_loop db pre [] = (Inr u, dbp) \<and>
      subtract_inventory dbp failed (quantity it) = (False, db') \<and>
      get_connection db' = get_connection dbp \<and>
      (\<forall>n. quantity_on_hand (get_connection db') n =
             quantity_on_hand (get_connection db) n
               - sum_list (map quantity (filter (\<lambda>i. item_name i = n) pre)))"
    by blast
  with node show ?thesis by simp
qed

theorem warehouse_failure_keeps_partial_reservations_witness:
  "warehouse_loop (Some sample_items)
     (get_parsed_items (first_turn_state
        [\<lparr>item_name = ''jacket'', quantity = 2\<rparr>, \<lparr>item_name = ''jacket'', quantity = 2\<rparr>])) []
     = (Inl ''jacket'', Some (update_quantity sample_items ''jacket'' 1)) \<and>
   warehouse_node (first_turn_state
        [\<lparr>item_name = ''jacket'', quantity = 2\<rparr>, \<lparr>item_name = ''jacket'', quantity = 2\<rparr>])
     (Some sample_items) =
     ((first_turn_state
        [\<lparr>item_name = ''jacket'', quantity = 2\<rparr>, \<lparr>item_name = ''jacket'', quantity = 2\<rparr>])
        \<lparr>status := Some ''subtracting_inventory'',
         error_message := Some ''Failed to subtract inventory for jacket''\<rparr>,
      Some (update_quantity sample_items ''jacket'' 1)) \<and>
   quantity_on_hand sample_items ''jacket'' = 3 \<and>
   quantity_on_hand (update_quantity sample_items ''jacket'' 1) ''jacket'' = 1"
proof -
  let ?items = "[\<lparr>item_name = ''jacket'', quantity = 2\<rparr>, \<lparr>item_name = ''jacket'', quantity = 2\<rparr>]"
  let ?t1 = "update_quantity sample_items ''jacket'' 1"
  have n: "normalize_item_name ''jacket'' = ''jacket''" by code_simp
  have s1: "subtract_inventory (Some sample_items) ''jacket'' 2 = (True, Some ?t1)"
    by (simp add: subtract_inventory_def select_item_def sample_items_def)
  have c: "check_stock (Some ?t1) ''jacket'' = (1, Some ?t1)"
    by (simp add: check_stock_def n select_item_def sample_items_def update_quantity_def)
  have s2: "subtract_inventory (Some ?t1) ''jacket'' 2 = (False, Some ?t1)"
    by (simp add: subtract_inventory_def select_item_def sample_items_def update_quantity_def)
  have loop: "warehouse_loop (Some sample_items) (get_parsed_items (first_turn_state ?items)) []
      = (Inl ''jacket'', Some ?t1)"
    by (simp add: get_parsed_items_def first_turn_state_def s1 c s2)
  have q3: "quantity_on_hand sample_items ''jacket'' = 3"
    by (simp add: quantity_on_hand_def select_item_def sample_items_def)
  have q1: "quantity_on_hand ?t1 ''jacket'' = 1"
    by (simp add: quantity_on_hand_def select_item_def sample_items_def update_quantity_def)
  show ?thesis
    using warehouse_failure_keeps_partial_reservations [OF loop] loop q3 q1 by simp
qed

section \<open>Settlement and order request: properties\<close>

lemma storage_send [simp]: "storage (send d p ctx) = storage ctx"
  by (simp add: send_def)

lemma inventory_db_send [simp]: "inventory_db (send d p ctx) = inventory_db ctx"
  by (simp add: send_def)

lemma sent_send [simp]: "sent (send d p ctx) = sent ctx @ [(d, p)]"
  by (simp add: send_def)

lemma storage_storage_set [simp]: "storage (storage_set k v ctx) = (storage ctx)(k \<mapsto> v)"
  by (simp add: storage_set_def)

lemma inventory_db_storage_set [simp]: "inventory_db (storage_set k v ctx) = inventory_db ctx"
  by (simp add: storage_set_def)

lemma sent_storage_set [simp]: "sent (storage_set k v ctx) = sent ctx"
  by (simp add: storage_set_def)




lemma confirm_session_payment_sent [simp]:
  "sent (confirm_session_payment session sender ctx) = sent ctx"
  by (simp add: confirm_session_payment_def split: option.splits storage_value.splits)

lemma confirm_session_payment_db [simp]:
  "inventory_db (confirm_session_payment session sender ctx) = inventory_db ctx"
  by (simp add: confirm_session_payment_def split: option.splits storage_value.splits)


lemma session_key_distinct:
  "prefix \<noteq> [] \<Longrightarrow> storage_key prefix sender session \<noteq> session_key sender session"
proof
  assume "prefix \<noteq> []" and "storage_key prefix sender session = session_key sender session"
  then have "length (storage_key prefix sender session) = length (session_key sender session)"
    by simp
  with \<open>prefix \<noteq> []\<close> show False
    by (simp add: storage_key_def session_key_def)
qed

lemma check_stock_multiple_db [simp]:
  "snd (check_stock_multiple db items) = Some (get_connection db)"
  by (simp add: check_stock_multiple_def Let_def)

lemma get_items_prices_db [simp]:
  "snd (get_items_prices db items) = Some (get_connection db)"
  by (simp add: get_items_prices_def Let_def)

lemma handle_chat_reads_only:
  "get_connection (inventory_db (handle_chat llm_result skyfire_service_id session sender msg ctx))
     = get_connection (inventory_db ctx)"
  by (simp add: handle_chat_def Let_def split_beta split: option.splits)

lemma stock_check_loop_db:
  "get_connection (snd (snd (stock_check_loop db items results all_available)))
     = get_connection db"
proof (induction items arbitrary: db results all_available)
  case Nil
  then show ?case by simp
next
  case (Cons x items)
  have "snd (check_stock db (item_name x)) = Some (get_connection db)" by simp
  with Cons.IH show ?case by (simp add: split_beta Let_def)
qed

lemma stock_management_node_reads_only:
  "get_connection (snd (stock_management_node state db)) = get_connection db"
  using stock_check_loop_db [of db "get_parsed_items state" "[]" True]
  by (simp add: stock_management_node_def Let_def split_beta)

lemma stream_db:
  "snd (stream state db) =
     (if route_after_stock_check (fst (stock_management_node state db)) = ''warehouse''
      then snd (warehouse_node (fst (stock_management_node state db))
                  (snd (stock_management_node state db)))
      else snd (stock_management_node state db))"
  unfolding stream_def
  by (subst run_from.simps)
     (simp add: split_beta path_map_def run_from_warehouse route_after_stock_check_def END_def)

lemma stream_nodes:
  "map fst (fst (stream state db)) =
     (if route_after_stock_check (fst (stock_management_node state db)) = ''warehouse''
      then [stock_management, warehouse, cashier] else [stock_management])"
  unfolding stream_def
  by (subst run_from.simps)
     (simp add: split_beta path_map_def run_from_warehouse route_after_stock_check_def END_def)

lemma run_agent_turn_db:
  "snd (run_agent_turn items st history db) = snd (stream (initial_state items st history) db)"
  by (simp add: run_agent_turn_def Let_def split_beta split: list.splits)

lemma confirm_session_payment_no_flag:
  "\<forall>b. storage ctx (session_key sender session) \<noteq> Some (Flag b) \<Longrightarrow>
     \<forall>b. storage (confirm_session_payment session sender ctx) (session_key sender session)
       \<noteq> Some (Flag b)"
  by (auto simp: confirm_session_payment_def split: option.splits storage_value.splits)

lemma find_parsed_items_confirm:
  "find_parsed_items session sender msg (confirm_session_payment session sender ctx)
     = find_parsed_items session sender msg ctx"
  by (simp add: find_parsed_items_def confirm_session_payment_def Let_def
      split: option.splits storage_value.splits)

lemma find_parsed_items_storage:
  assumes "storage ctx' (session_key sender session) = storage ctx (session_key sender session)"
  shows "find_parsed_items session sender msg ctx' = find_parsed_items session sender msg ctx"
  unfolding find_parsed_items_def assms by (rule refl)

lemma process_order_found_db:
  assumes "find_parsed_items session sender msg ctx = items" and "items \<noteq> []"
    and "\<forall>b. storage ctx (session_key sender session) \<noteq> Some (Flag b)"
  shows "\<exists>st history. inventory_db (process_order session sender msg ctx) =
           snd (stream (initial_state items st history) (inventory_db ctx))"
proof (cases "storage ctx (session_key sender session)")
  case None
  with assms(1,2) have "inventory_db (process_order session sender msg ctx) =
      snd (run_agent_turn items empty_session_state [] (inventory_db ctx))"
    by (simp add: process_order_def Let_def split_beta)
  then show ?thesis unfolding run_agent_turn_db by blast
next
  case (Some v)
  with assms(3) obtain d where d: "v = SessionData d" by (cases v) auto
  with Some assms(1,2) have "inventory_db (process_order session sender msg ctx) =
      snd (run_agent_turn items
            (case sd_state d of Some s \<Rightarrow> s | None \<Rightarrow> empty_session_state)
            (case sd_history d of Some h \<Rightarrow> h | None \<Rightarrow> []) (inventory_db ctx))"
    by (simp add: process_order_def Let_def split_beta)
  then show ?thesis unfolding run_agent_turn_db by blast
qed

lemma process_order_idle_db:
  assumes "find_parsed_items session sender msg ctx = [] \<or>
           (\<exists>b. storage ctx (session_key sender session) = Some (Flag b))"
  shows "inventory_db (process_order session sender msg ctx) = inventory_db ctx"
  using assms by (auto simp: process_order_def Let_def)

lemma settled_context_session:
  "storage (storage_set (storage_key ''paid'' sender session) (Flag True)
      (send sender (CompletePayment tx)
        (storage_set (storage_key (''commit_'' @ tx) sender session) (Flag True) ctx)))
     (session_key sender session) = storage ctx (session_key sender session)"
proof -
  have "storage_key ''paid'' sender session \<noteq> session_key sender session"
    by (rule session_key_distinct) simp
  moreover have "storage_key (''commit_'' @ tx) sender session \<noteq> session_key sender session"
    by (rule session_key_distinct) simp
  ultimately show ?thesis by simp
qed

lemma confirm_session_payment_flag:
  "storage ctx (session_key sender session) = Some (Flag b) \<Longrightarrow>
     storage (confirm_session_payment session sender ctx) (session_key sender session)
       = Some (Flag b)"
  by (simp add: confirm_session_payment_def)

















text \<open>
  C2, as the specification states it, fails: nothing is reserved before the order
  awaits payment. In the scenario, once the chat handler has sent the payment
  request there are still 10 tshirts; the two tshirts are taken off only while the
  verified \<open>CommitPayment\<close> is processed, so the step from settlement to completion
  does mutate the inventory.
\<close>

theorem reservation_before_payment_counterexample:
  "sent awaiting_payment_context =
     [(''alice'', ChatAcknowledgement ''m1''), (''alice'', RequestPayment order_items)] \<and>
   quantity_on_hand (get_connection (inventory_db fresh_context)) ''tshirt'' = 10 \<and>
   quantity_on_hand (get_connection (inventory_db awaiting_payment_context)) ''tshirt'' = 10 \<and>
   quantity_on_hand (get_connection (inventory_db
      (on_commit True ''s1'' ''alice'' commit_message awaiting_payment_context))) ''tshirt'' = 8 \<and>
   inventory_db (on_commit True ''s1'' ''alice'' commit_message awaiting_payment_context)
     \<noteq> inventory_db awaiting_payment_context"
  by code_simp

text \<open>
  C2, amended. For every order the reserve calls are made while a verified
  \<open>CommitPayment\<close> is processed, not before. The chat handler, which sends the
  payment request, only reads the inventory. A commit that is not verified leaves
  the inventory alone. A verified, new commit whose order lines are found (in its
  metadata or, failing that, in the session data) leaves the inventory as the run
  of the workflow graph on those lines leaves it, and every other verified commit
  (a duplicate, another payment method, no order lines, no session dictionary)
  leaves the inventory alone. In that run the stock check only reads, the warehouse
  (when the run reaches it) comes before the cashier, and the cashier step
  (completion) changes nothing, so every change is one \<open>warehouse_node\<close> made.
\<close>

theorem reservation_happens_at_settlement:
  "get_connection (inventory_db
      (handle_chat llm_result skyfire_service_id session sender chat ctx))
     = get_connection (inventory_db ctx) \<and>
   inventory_db (on_commit False session sender msg ctx) = inventory_db ctx \<and>
   (storage ctx (storage_key (''commit_'' @ transaction_id msg) sender session) = None \<and>
    funds_payment_method msg = ''skyfire'' \<and>
    find_parsed_items session sender msg ctx = items \<and> items \<noteq> [] \<and>
    (\<forall>b. storage ctx (session_key sender session) \<noteq> Some (Flag b))
      \<longrightarrow> (\<exists>st history. inventory_db (on_commit True session sender msg ctx) =
              snd (stream (initial_state items st history) (inventory_db ctx)))) \<and>
   (storage ctx (storage_key (''commit_'' @ transaction_id msg) sender session) \<noteq> None \<or>
    funds_payment_method msg \<noteq> ''skyfire'' \<or>
    find_parsed_items session sender msg ctx = [] \<or>
    (\<exists>b. storage ctx (session_key sender session) = Some (Flag b))
      \<longrightarrow> inventory_db (on_commit True session sender msg ctx) = inventory_db ctx) \<and>
   get_connection (snd (run_node stock_management state db)) = get_connection db \<and>
   snd (run_node cashier state db) = db \<and>
   snd (stream state db) =
     (if route_after_stock_check (fst (run_node stock_management state db)) = ''warehouse''
      then snd (run_node warehouse (fst (run_node stock_management state db))
                  (snd (run_node stock_management state db)))
      else snd (run_node stock_management state db)) \<and>
   map fst (fst (stream state db)) =
     (if route_after_stock_check (fst (run_node stock_management state db)) = ''warehouse''
      then [stock_management, warehouse, cashier] else [stock_management])"
proof -
  let ?key = "storage_key (''commit_'' @ transaction_id msg) sender session"
  let ?c = "storage_set (storage_key ''paid'' sender session) (Flag True)
      (send sender (CompletePayment (transaction_id msg)) (storage_set ?key (Flag True) ctx))"
  let ?c' = "confirm_session_payment session sender ?c"
  have same_session: "storage ?c (session_key sender session)
      = storage ctx (session_key sender session)"
    by (rule settled_context_session)
  have found: "find_parsed_items session sender msg ?c' = find_parsed_items session sender msg ctx"
    using find_parsed_items_storage [OF same_session] by (simp add: find_parsed_items_confirm)
  have db: "inventory_db ?c' = inventory_db ctx"
    by simp
  have chat: "get_connection (inventory_db
      (handle_chat llm_result skyfire_service_id session sender chat ctx))
      = get_connection (inventory_db ctx)"
    by (rule handle_chat_reads_only)
  have unverified: "inventory_db (on_commit False session sender msg ctx) = inventory_db ctx"
    by (simp add: on_commit_def Let_def)
  have settled: "\<exists>st history. inventory_db (on_commit True session sender msg ctx) =
        snd (stream (initial_state items st history) (inventory_db ctx))"
    if fresh: "storage ctx ?key = None"
      and paid_by_skyfire: "funds_payment_method msg = ''skyfire''"
      and lines: "find_parsed_items session sender msg ctx = items" "items \<noteq> []"
      and dict: "\<forall>b. storage ctx (session_key sender session) \<noteq> Some (Flag b)"
  proof -
    from dict same_session
    have "\<forall>b. storage ?c (session_key sender session) \<noteq> Some (Flag b)"
      by simp
    then have no_flag: "\<forall>b. storage ?c' (session_key sender session) \<noteq> Some (Flag b)"
      by (rule confirm_session_payment_no_flag)
    from lines(1) found have "find_parsed_items session sender msg ?c' = items"
      by simp
    from process_order_found_db [OF this lines(2) no_flag] db
    obtain st history where
      "inventory_db (process_order session sender msg ?c')
         = snd (stream (initial_state items st history) (inventory_db ctx))"
      by auto
    with fresh paid_by_skyfire
    have "inventory_db (on_commit True session sender msg ctx) =
        snd (stream (initial_state items st history) (inventory_db ctx))"
      by (simp add: on_commit_def Let_def)
    then show ?thesis by blast
  qed
  have idle: "inventory_db (on_commit True session sender msg ctx) = inventory_db ctx"
    if other: "storage ctx ?key \<noteq> None \<or> funds_payment_method msg \<noteq> ''skyfire'' \<or>
      find_parsed_items session sender msg ctx = [] \<or>
      (\<exists>b. storage ctx (session_key sender session) = Some (Flag b))"
  proof (cases "storage ctx ?key \<noteq> None \<or> funds_payment_method msg \<noteq> ''skyfire''")
    case True
    then show ?thesis by (auto simp: on_commit_def Let_def)
  next
    case False
    with other have "find_parsed_items session sender msg ?c' = [] \<or>
        (\<exists>b. storage ?c' (session_key sender session) = Some (Flag b))"
      using found same_session confirm_session_payment_flag [of ?c sender session]
      by auto
    then have "inventory_db (process_order session sender msg ?c') = inventory_db ?c'"
      by (rule process_order_idle_db)
    with False db show ?thesis by (simp add: on_commit_def Let_def)
  qed
  have check: "get_connection (snd (run_node stock_management state db)) = get_connection db"
    by (simp add: stock_management_node_reads_only)
  have cash: "snd (run_node cashier state db) = db"
    by simp
  have graph: "snd (stream state db) =
     (if route_after_stock_check (fst (run_node stock_management state db)) = ''warehouse''
      then snd (run_node warehouse (fst (run_node stock_management state db))
                  (snd (run_node stock_management state db)))
      else snd (run_node stock_management state db))"
    by (simp add: stream_db)
  have order: "map fst (fst (stream state db)) =
     (if route_after_stock_check (fst (run_node stock_management state db)) = ''warehouse''
      then [stock_management, warehouse, cashier] else [stock_management])"
    by (simp add: stream_nodes)
  from chat unverified settled idle check cash graph order show ?thesis by blast
qed

theorem reservation_happens_at_settlement_witness:
  "storage awaiting_payment_context
     (storage_key (''commit_'' @ transaction_id commit_message) ''alice'' ''s1'') = None \<and>
   metadata_parsed_items (commit_message\<lparr>metadata_parsed_items := None\<rparr>) = None \<and>
   find_parsed_items ''s1'' ''alice'' (commit_message\<lparr>metadata_parsed_items := None\<rparr>)
     awaiting_payment_context = order_items \<and>
   (\<exists>st history.
      inventory_db (on_commit True ''s1'' ''alice''
          (commit_message\<lparr>metadata_parsed_items := None\<rparr>) awaiting_payment_context) =
        snd (stream (initial_state order_items st history)
               (inventory_db awaiting_payment_context))) \<and>
   funds_payment_method (commit_message\<lparr>funds_payment_method := ''card''\<rparr>) \<noteq> ''skyfire'' \<and>
   inventory_db (on_commit True ''s1'' ''alice''
       (commit_message\<lparr>funds_payment_method := ''card''\<rparr>) awaiting_payment_context)
     = inventory_db awaiting_payment_context"
proof -
  let ?fallback = "commit_message\<lparr>metadata_parsed_items := None\<rparr>"
  let ?card = "commit_message\<lparr>funds_payment_method := ''card''\<rparr>"
  have fresh: "storage awaiting_payment_context
      (storage_key (''commit_'' @ transaction_id ?fallback) ''alice'' ''s1'') = None"
    by code_simp
  have paid_by_skyfire: "funds_payment_method ?fallback = ''skyfire''"
    by (simp add: commit_message_def)
  have none: "metadata_parsed_items ?fallback = None"
    by simp
  have lines: "find_parsed_items ''s1'' ''alice'' ?fallback awaiting_payment_context = order_items"
    by code_simp
  have nonempty: "order_items \<noteq> []"
    by (simp add: order_items_def)
  have t: "storage awaiting_payment_context (session_key ''alice'' ''s1'') \<noteq> Some (Flag True)"
    by code_simp
  have f: "storage awaiting_payment_context (session_key ''alice'' ''s1'') \<noteq> Some (Flag False)"
    by code_simp
  have dict: "\<forall>b. storage awaiting_payment_context (session_key ''alice'' ''s1'') \<noteq> Some (Flag b)"
  proof
    fix b
    show "storage awaiting_payment_context (session_key ''alice'' ''s1'') \<noteq> Some (Flag b)"
      using t f by (cases b) simp_all
  qed
  from reservation_happens_at_settlement
    [of _ _ "''s1''" "''alice''" _ awaiting_payment_context ?fallback order_items]
    fresh paid_by_skyfire lines nonempty dict
  have settled: "\<exists>st history.
      inventory_db (on_commit True ''s1'' ''alice'' ?fallback awaiting_payment_context) =
        snd (stream (initial_state order_items st history)
               (inventory_db awaiting_payment_context))"
    by blast
  have card: "funds_payment_method ?card \<noteq> ''skyfire''"
    by (simp add: commit_message_def)
  from reservation_happens_at_settlement
    [of _ _ "''s1''" "''alice''" _ awaiting_payment_context ?card] card
  have idle: "inventory_db (on_commit True ''s1'' ''alice'' ?card awaiting_payment_context)
      = inventory_db awaiting_payment_context"
    by blast
  have fresh': "storage awaiting_payment_context
      (storage_key (''commit_'' @ transaction_id commit_message) ''alice'' ''s1'') = None"
    by code_simp
  from fresh' none lines settled card idle show ?thesis by blast
qed

end
